theory Spec2Isabelle
  imports Main "HOL-Library.Sublist"
begin

section \<open>Python values shared by the modules\<close>

text \<open>
  A Python \<open>str\<close> is modelled by its UTF-8 encoding (\<open>string\<close>, a list of bytes).
  \<open>strip\<close>, \<open>len\<close> and slicing work on characters, so they are written for the UTF-8
  form of each character. Exceptions are values, each with the text that \<open>str(e)\<close>
  gives. The classes are the ones that the code raises or that one of its \<open>except\<close>
  clauses tells apart; an exception of any other class that derives from \<open>Exception\<close>
  (an error of the Redis client, a validation error of a message class) is an
  \<open>Exception\<close>. \<open>KeyboardInterrupt\<close> is the one exception of the model that does not
  derive from \<open>Exception\<close>, so an \<open>except Exception\<close> clause lets it through.
\<close>

datatype py_exn =
    Exception string
  | RuntimeError string
  | AttributeError string
  | TypeError string
  | ValueError string
  | JSONDecodeError string
  | KeyboardInterrupt

fun is_Exception :: "py_exn \<Rightarrow> bool" where
  "is_Exception KeyboardInterrupt = False"
| "is_Exception _ = True"

fun exn_str :: "py_exn \<Rightarrow> string" where
  "exn_str (Exception m) = m"
| "exn_str (RuntimeError m) = m"
| "exn_str (AttributeError m) = m"
| "exn_str (TypeError m) = m"
| "exn_str (ValueError m) = m"
| "exn_str (JSONDecodeError m) = m"
| "exn_str KeyboardInterrupt = []"

definition py_in :: "string \<Rightarrow> string \<Rightarrow> bool" where
  \<comment> \<open>\<open>needle in haystack\<close> on strings\<close>
  "py_in needle haystack = sublist needle haystack"

definition WHITESPACE :: "string list" where
  \<comment> \<open>the characters that \<open>str.isspace\<close> accepts and \<open>str.strip()\<close> removes, in UTF-8:
      U+0009 to U+000D, U+001C to U+001F, U+0020, U+0085, U+00A0, U+1680,
      U+2000 to U+200A, U+2028, U+2029, U+202F, U+205F and U+3000\<close>
  "WHITESPACE =
     [[CHR 0x09], [CHR 0x0A], [CHR 0x0B], [CHR 0x0C], [CHR 0x0D],
      [CHR 0x1C], [CHR 0x1D], [CHR 0x1E], [CHR 0x1F], [CHR 0x20],
      [CHR 0xC2, CHR 0x85], [CHR 0xC2, CHR 0xA0], [CHR 0xE1, CHR 0x9A, CHR 0x80],
      [CHR 0xE2, CHR 0x80, CHR 0x80], [CHR 0xE2, CHR 0x80, CHR 0x81],
      [CHR 0xE2, CHR 0x80, CHR 0x82], [CHR 0xE2, CHR 0x80, CHR 0x83],
      [CHR 0xE2, CHR 0x80, CHR 0x84], [CHR 0xE2, CHR 0x80, CHR 0x85],
      [CHR 0xE2, CHR 0x80, CHR 0x86], [CHR 0xE2, CHR 0x80, CHR 0x87],
      [CHR 0xE2, CHR 0x80, CHR 0x88], [CHR 0xE2, CHR 0x80, CHR 0x89],
      [CHR 0xE2, CHR 0x80, CHR 0x8A], [CHR 0xE2, CHR 0x80, CHR 0xA8],
      [CHR 0xE2, CHR 0x80, CHR 0xA9], [CHR 0xE2, CHR 0x80, CHR 0xAF],
      [CHR 0xE2, CHR 0x81, CHR 0x9F], [CHR 0xE3, CHR 0x80, CHR 0x80]]"

function strip_prefixes :: "string list \<Rightarrow> string \<Rightarrow> string" where
  \<comment> \<open>remove from the front of \<open>s\<close> every leading occurrence of one of \<open>pats\<close>\<close>
  "strip_prefixes pats s =
     (case List.find (\<lambda>p. p \<noteq> [] \<and> prefix p s) pats of
        None \<Rightarrow> s
      | Some p \<Rightarrow> strip_prefixes pats (drop (length p) s))"
  by pat_completeness auto
termination
proof (relation "measure (\<lambda>(pats, s). length s)")
  show "wf (measure (\<lambda>(pats, s). length s))"
    by simp
next
  fix pats :: "string list" and s p :: string
  assume "List.find (\<lambda>p. p \<noteq> [] \<and> prefix p s) pats = Some p"
  then have p: "p \<noteq> []" "prefix p s"
    by (auto simp: find_Some_iff)
  from p(1) have "0 < length p"
    by simp
  moreover from p(2) have "length p \<le> length s"
    by (rule prefix_length_le)
  ultimately have "length s - length p < length s"
    by linarith
  then show "((pats, drop (length p) s), (pats, s)) \<in> measure (\<lambda>(pats, s). length s)"
    by simp
qed

declare strip_prefixes.simps [simp del]

definition py_lstrip :: "string \<Rightarrow> string" where
  "py_lstrip s = strip_prefixes WHITESPACE s"

definition py_rstrip :: "string \<Rightarrow> string" where
  \<comment> \<open>a UTF-8 text ends with a character exactly when it ends with its bytes\<close>
  "py_rstrip s = rev (strip_prefixes (map rev WHITESPACE) (rev s))"

definition py_strip :: "string \<Rightarrow> string" where
  \<comment> \<open>\<open>s.strip()\<close>\<close>
  "py_strip s = py_rstrip (py_lstrip s)"

definition is_continuation :: "char \<Rightarrow> bool" where
  \<comment> \<open>the bytes \<open>10xxxxxx\<close>, which continue a character of several bytes\<close>
  "is_continuation c = (128 \<le> (of_char c :: nat) \<and> (of_char c :: nat) < 192)"

definition py_len_str :: "string \<Rightarrow> nat" where
  \<comment> \<open>\<open>len(s)\<close>: the number of characters, one for each byte that starts one\<close>
  "py_len_str s = length (filter (\<lambda>c. \<not> is_continuation c) s)"

fun py_take_str :: "nat \<Rightarrow> string \<Rightarrow> string" where
  \<comment> \<open>\<open>s[:n]\<close>: the first \<open>n\<close> characters, each with its continuation bytes\<close>
  "py_take_str n [] = []"
| "py_take_str n (c # cs) =
     (if is_continuation c then c # py_take_str n cs
      else (case n of 0 \<Rightarrow> [] | Suc m \<Rightarrow> c # py_take_str m cs))"

definition py_upper :: "string \<Rightarrow> string" where
  \<comment> \<open>\<open>str.upper\<close> on ASCII text\<close>
  "py_upper s = map (\<lambda>c. if 97 \<le> (of_char c :: nat) \<and> (of_char c :: nat) \<le> 122
                           then char_of ((of_char c :: nat) - 32) else c) s"

definition py_lower :: "string \<Rightarrow> string" where
  \<comment> \<open>\<open>str.lower\<close> on ASCII text\<close>
  "py_lower s = map (\<lambda>c. if 65 \<le> (of_char c :: nat) \<and> (of_char c :: nat) \<le> 90
                           then char_of ((of_char c :: nat) + 32) else c) s"

fun py_join :: "string \<Rightarrow> string list \<Rightarrow> string" where
  "py_join sep [] = []"
| "py_join sep [x] = x"
| "py_join sep (x # y # ys) = x @ sep @ py_join sep (y # ys)"

definition py_slice_from :: "int \<Rightarrow> 'a list \<Rightarrow> 'a list" where
  \<comment> \<open>\<open>xs[i:]\<close>: a negative start counts from the end and is clamped at the front\<close>
  "py_slice_from i xs = (if i < 0 then drop (length xs - nat (- i)) xs else drop (nat i) xs)"

text \<open>
  The values that \<open>json.loads\<close> and \<open>json_repair\<close> produce and that the state graph
  carries: \<open>None\<close>, booleans, integers, floats, strings, lists and dictionaries (as
  association lists in insertion order). A float is identified by its \<open>repr\<close>, the
  shortest decimal text that reads back as the same float (\<open>1.5\<close>, \<open>1e-05\<close>, \<open>inf\<close>,
  \<open>nan\<close>); no arithmetic is done on floats.
\<close>

datatype json =
    JNull
  | JBool bool
  | JInt int
  | JFloat string
  | JStr string
  | JList "json list"
  | JDict "(string \<times> json) list"

fun truthy :: "json \<Rightarrow> bool" where
  \<comment> \<open>Python's truth value, as tested by \<open>if task\<close> and \<open>if not task\<close>\<close>
  "truthy JNull = False"
| "truthy (JBool b) = b"
| "truthy (JInt i) = (i \<noteq> 0)"
| "truthy (JFloat r) = (r \<noteq> ''0.0'' \<and> r \<noteq> ''-0.0'')"
| "truthy (JStr s) = (s \<noteq> [])"
| "truthy (JList xs) = (xs \<noteq> [])"
| "truthy (JDict kvs) = (kvs \<noteq> [])"

fun py_type_name :: "json \<Rightarrow> string" where
  "py_type_name JNull = ''NoneType''"
| "py_type_name (JBool b) = ''bool''"
| "py_type_name (JInt i) = ''int''"
| "py_type_name (JFloat r) = ''float''"
| "py_type_name (JStr s) = ''str''"
| "py_type_name (JList xs) = ''list''"
| "py_type_name (JDict kvs) = ''dict''"

definition no_attribute :: "json \<Rightarrow> string \<Rightarrow> py_exn" where
  "no_attribute v a =
     AttributeError ([CHR 0x27] @ py_type_name v @ [CHR 0x27] @ '' object has no attribute ''
                     @ [CHR 0x27] @ a @ [CHR 0x27])"

definition dict_get :: "(string \<times> json) list \<Rightarrow> string \<Rightarrow> json \<Rightarrow> json" where
  \<comment> \<open>\<open>d.get(k, default)\<close>; \<open>d.get(k)\<close> is \<open>dict_get d k JNull\<close>\<close>
  "dict_get d k dflt = (case map_of d k of None \<Rightarrow> dflt | Some v \<Rightarrow> v)"

definition dict_del :: "(string \<times> json) list \<Rightarrow> string \<Rightarrow> (string \<times> json) list" where
  "dict_del d k = filter (\<lambda>kv. fst kv \<noteq> k) d"

definition digit_char :: "nat \<Rightarrow> char" where
  "digit_char d = char_of (48 + d)"

function show_nat :: "nat \<Rightarrow> string" where
  "show_nat n = (if n < 10 then [digit_char n] else show_nat (n div 10) @ [digit_char (n mod 10)])"
  by pat_completeness auto
termination
  by (relation "measure id") auto

definition show_int :: "int \<Rightarrow> string" where
  "show_int i = (if i < 0 then CHR ''-'' # show_nat (nat (- i)) else show_nat (nat i))"

definition hex_digit :: "nat \<Rightarrow> char" where
  "hex_digit d = (if d < 10 then char_of (48 + d) else char_of (87 + d))"

definition repr_char :: "char \<Rightarrow> char \<Rightarrow> string" where
  "repr_char q c =
     (if c = q \<or> c = CHR 0x5C then [CHR 0x5C, c]
      else if c = CHR 0x09 then [CHR 0x5C, CHR ''t'']
      else if c = CHR 0x0A then [CHR 0x5C, CHR ''n'']
      else if c = CHR 0x0D then [CHR 0x5C, CHR ''r'']
      else if (of_char c :: nat) < 32 \<or> c = CHR 0x7F
        then [CHR 0x5C, CHR ''x'', hex_digit (of_char c div 16), hex_digit (of_char c mod 16)]
      else [c])"

definition repr_str :: "string \<Rightarrow> string" where
  "repr_str s =
     (let q = (if CHR 0x27 \<in> set s \<and> CHR 0x22 \<notin> set s then CHR 0x22 else CHR 0x27)
      in q # concat (map (repr_char q) s) @ [q])"

fun py_repr :: "json \<Rightarrow> string" where
  "py_repr JNull = ''None''"
| "py_repr (JBool b) = (if b then ''True'' else ''False'')"
| "py_repr (JInt i) = show_int i"
| "py_repr (JFloat r) = r"
| "py_repr (JStr s) = repr_str s"
| "py_repr (JList xs) = ''['' @ py_join '', '' (map py_repr xs) @ '']''"
| "py_repr (JDict kvs) =
     ''{'' @ py_join '', '' (map (\<lambda>(k, v). repr_str k @ '': '' @ py_repr v) kvs) @ ''}''"

fun py_str :: "json \<Rightarrow> string" where
  \<comment> \<open>\<open>str(v)\<close>, which is what an f-string field \<open>{v}\<close> inserts\<close>
  "py_str (JStr s) = s"
| "py_str v = py_repr v"

section \<open>utils/memory\_manager.py: HotMemory\<close>

text \<open>
  \<open>HotMemory\<close> keeps \<open>_global_context\<close> in the object and a copy in
  \<open>hot_memory.json\<close>. The file is modelled by \<open>string option\<close>: \<open>None\<close> when it does
  not exist or cannot be read, otherwise the value stored under
  \<open>global_project_context\<close>. A write may fail; the failure is printed and swallowed,
  so \<open>set_context\<close> takes the outcome of the write as an argument.
\<close>

record HotMemory =
  global_context :: string

definition load_context_from_file :: "string option \<Rightarrow> string" where
  "load_context_from_file file = (case file of None \<Rightarrow> [] | Some c \<Rightarrow> c)"

definition HotMemory_init :: "string option \<Rightarrow> HotMemory" where
  "HotMemory_init file = \<lparr>global_context = load_context_from_file file\<rparr>"

definition save_context_to_file :: "bool \<Rightarrow> string \<Rightarrow> string option \<Rightarrow> string option" where
  "save_context_to_file write_ok context_text file = (if write_ok then Some context_text else file)"

definition set_context :: "bool \<Rightarrow> string \<Rightarrow> HotMemory \<times> string option \<Rightarrow> HotMemory \<times> string option" where
  "set_context write_ok context_text hf =
     (case hf of (h, file) \<Rightarrow>
        (h\<lparr>global_context := context_text\<rparr>, save_context_to_file write_ok context_text file))"

definition NO_CONTEXT :: string where
  "NO_CONTEXT = ''No global context set. Please run Contextor first.''"

definition get_context :: "HotMemory \<Rightarrow> string" where
  "get_context h = (if global_context h = [] then NO_CONTEXT else global_context h)"

section \<open>utils/memory\_manager.py: WarmMemory\<close>

text \<open>
  A \<open>WarmMemory\<close> object is bound to a session id and talks to one of two stores, chosen
  by the \<open>ping\<close> probe in \<open>__init__\<close> (\<open>use_redis\<close>). The record holds the object's
  fields together with the contents of both stores:
  \<^item> the Redis server: lists and hashes by key (a missing key is the empty list, or
    the empty hash); \<open>chat:ID\<close> holds the JSON text of each message, which
    \<open>json.loads\<close> turns back into the message, so the list is kept as the messages
    themselves; hash fields hold strings;
  \<^item> the dictionary that \<open>_ensure_local_store\<close> reloads from \<open>warm_memory_dump.json\<close>
    before, and \<open>_save_local_store\<close> writes back after, every operation (reads and
    writes of the file are taken to succeed): \<open>chat:ID\<close> entries are lists of
    messages, \<open>meta:ID\<close> entries are dictionaries.
  The annotations \<open>role: str, content: str\<close> of \<open>add_message\<close> are not checked: the
  content of a message is whatever value the caller passes, and \<open>run_task\<close> passes its
  task as it received it. \<open>datetime.now().isoformat()\<close> is an argument of
  \<open>add_message\<close>. The daemon thread
  that \<open>add_message\<close> starts on \<open>_archive_oldest\<close> is modelled by returning the
  messages it is given.
\<close>

record message =
  role :: string
  content :: json
  timestamp :: string

record WarmMemory =
  session_id :: string
  use_redis :: bool
  redis_lists :: "string \<Rightarrow> message list"
  redis_hashes :: "string \<Rightarrow> (string \<rightharpoonup> string)"
  local_chat :: "string \<rightharpoonup> message list"
  local_meta :: "string \<rightharpoonup> (string \<rightharpoonup> json)"

definition chat_key :: "WarmMemory \<Rightarrow> string" where
  "chat_key w = ''chat:'' @ session_id w"


definition ARCHIVE_THRESHOLD :: nat where
  "ARCHIVE_THRESHOLD = 10"

definition ARCHIVE_BATCH_SIZE :: nat where
  "ARCHIVE_BATCH_SIZE = 1"

definition chat_list :: "WarmMemory \<Rightarrow> message list" where
  \<comment> \<open>the session's queue: \<open>lrange(chat_key, 0, -1)\<close>, or \<open>_local_store.get(chat_key, [])\<close>\<close>
  "chat_list w =
     (if use_redis w then redis_lists w (chat_key w)
      else (case local_chat w (chat_key w) of None \<Rightarrow> [] | Some ms \<Rightarrow> ms))"

definition pop_oldest_sync :: "WarmMemory \<Rightarrow> WarmMemory \<times> message list" where
  "pop_oldest_sync w =
     (if use_redis w then
        (let old_msgs_raw = take ARCHIVE_BATCH_SIZE (redis_lists w (chat_key w))
         in (w\<lparr>redis_lists := (redis_lists w)
                 (chat_key w := drop ARCHIVE_BATCH_SIZE (redis_lists w (chat_key w)))\<rparr>,
             old_msgs_raw))
      else
        (let all_msgs = (case local_chat w (chat_key w) of None \<Rightarrow> [] | Some ms \<Rightarrow> ms)
         in (w\<lparr>local_chat := (local_chat w)(chat_key w \<mapsto> drop ARCHIVE_BATCH_SIZE all_msgs)\<rparr>,
             take ARCHIVE_BATCH_SIZE all_msgs)))"

definition add_message :: "string \<Rightarrow> json \<Rightarrow> string \<Rightarrow> WarmMemory \<Rightarrow> WarmMemory \<times> message list" where
  \<comment> \<open>\<open>add_message role content\<close> at time \<open>now\<close>; the second component is what is handed
      to the archiver (\<open>[]\<close> when no thread is started)\<close>
  "add_message rl cnt now w =
     (let msg_obj = \<lparr>role = rl, content = cnt, timestamp = now\<rparr>;
          w1 = (if use_redis w
                then w\<lparr>redis_lists := (redis_lists w)
                        (chat_key w := redis_lists w (chat_key w) @ [msg_obj])\<rparr>
                else w\<lparr>local_chat := (local_chat w)
                        (chat_key w \<mapsto>
                           (case local_chat w (chat_key w) of None \<Rightarrow> [] | Some ms \<Rightarrow> ms)
                           @ [msg_obj])\<rparr>);
          current_len = length (chat_list w1)
      in if current_len > ARCHIVE_THRESHOLD then pop_oldest_sync w1 else (w1, []))"

definition get_recent_messages :: "int \<Rightarrow> WarmMemory \<Rightarrow> message list" where
  \<comment> \<open>\<open>lrange(chat_key, -limit, -1)\<close>, or \<open>_local_store.get(chat_key, [])[-limit:]\<close>\<close>
  "get_recent_messages limit w = py_slice_from (- limit) (chat_list w)"







section \<open>agents/base\_agent.py: BaseAgent\<close>

text \<open>
  The environment of an agent is everything that \<open>run_task\<close> calls outside this
  repository, or that another process decides:
  \<^item> the language model: every call of \<open>invoke\<close> may answer differently, so the reply
    is a function of the number of calls made so far, of the provider that is active
    and of the messages sent; it is either a response (its content and its tool
    calls) or an exception. A failing \<open>switch_to_provider\<close>, \<open>get_model\<close> or
    \<open>bind_tools\<close> in the fallback sequence is a failure of that provider's attempt;
  \<^item> the clock, read by the two \<open>add_message\<close> calls;
  \<^item> \<open>str.lower\<close>, the case mapping of Unicode;
  \<^item> the validation that \<open>HumanMessage(content=v)\<close> makes of a content that is not a
    string: the content that the message keeps, or the error it raises;
  \<^item> the store behind \<open>WarmMemory\<close>: \<open>task_fault\<close>, \<open>history_fault\<close> and \<open>reply_fault\<close>
    are the exceptions, if any, that it raises (a connection error of Redis, a
    dump file of another shape) in the three calls that \<open>run_task\<close> makes:
    \<open>add_message("User", task)\<close>, \<open>get_recent_messages\<close> inside \<open>_build_history\<close>,
    and \<open>add_message(agent_name, ...)\<close>. A call that raises is taken to fail at its
    first command, leaving the store as it was.
  A tool is a function from its arguments to its output or an exception.
  \<open>llm_calls\<close> and \<open>invoke_log\<close> are not attributes of the Python object: the first
  counts the calls of \<open>invoke\<close>, the second keeps what each call of \<open>_robust_invoke\<close>
  gave, a response or the exception it raised.
\<close>

record tool_call =
  tc_name :: string
  tc_args :: json
  tc_id :: string

datatype msg_content = Text string | Parts "json list"

datatype lc_message =
    SystemMessage string
  | HumanMessage msg_content
  | AIMessage msg_content "tool_call list"
  | ToolMessage string string

type_synonym llm_reply = "msg_content \<times> tool_call list"

record env =
  llm :: "nat \<Rightarrow> string \<Rightarrow> lc_message list \<Rightarrow> py_exn + llm_reply"
  t_task :: string
  t_reply :: string
  str_lower :: "string \<Rightarrow> string"
  human_content :: "json \<Rightarrow> py_exn + msg_content"
  task_fault :: "py_exn option"
  history_fault :: "py_exn option"
  reply_fault :: "py_exn option"

record BaseAgent =
  agent_name :: string
  formatted_system_prompt :: string
  tools_map :: "string \<rightharpoonup> (json \<Rightarrow> py_exn + string)"
  warm_memory :: WarmMemory
  provider :: string
  llm_calls :: nat
  invoke_log :: "(py_exn + llm_reply) list"

definition TOOL_ERROR_REPLY :: string where
  "TOOL_ERROR_REPLY = ''I encountered a tool error. The requested tool is not available. ''
     @ ''Please use only: python_interpreter, install_package, or chat_log_search.''"

definition ALL_PROVIDERS_FAILED :: string where
  "ALL_PROVIDERS_FAILED = ''All LLM providers failed. Please check your API keys or connection.''"

fun try_providers :: "env \<Rightarrow> string list \<Rightarrow> lc_message list \<Rightarrow> BaseAgent \<Rightarrow> (py_exn + llm_reply) \<times> BaseAgent" where
  \<comment> \<open>the \<open>for provider in providers\<close> loop of \<open>_robust_invoke\<close> and the \<open>raise\<close> after it\<close>
  "try_providers e [] msgs a = (Inl (RuntimeError ALL_PROVIDERS_FAILED), a)"
| "try_providers e (p # ps) msgs a =
     (let a' = a\<lparr>provider := p, llm_calls := Suc (llm_calls a)\<rparr>
      in case llm e (llm_calls a) p msgs of
           Inr r \<Rightarrow> (Inr r, a')
         | Inl x \<Rightarrow> if is_Exception x then try_providers e ps msgs a' else (Inl x, a'))"

definition invoke_with_fallback :: "env \<Rightarrow> lc_message list \<Rightarrow> BaseAgent \<Rightarrow> (py_exn + llm_reply) \<times> BaseAgent" where
  \<comment> \<open>the body of \<open>_robust_invoke\<close>\<close>
  "invoke_with_fallback e msgs a =
     (let a' = a\<lparr>llm_calls := Suc (llm_calls a)\<rparr>
      in case llm e (llm_calls a) (provider a) msgs of
           Inr r \<Rightarrow> (Inr r, a')
         | Inl x \<Rightarrow>
             if \<not> is_Exception x then (Inl x, a')
             else if py_in ''tool call validation failed'' (exn_str x)
                     \<or> py_in ''not in request.tools'' (exn_str x)
               then (Inr (Text TOOL_ERROR_REPLY, []), a')
             else try_providers e [''gemini'', ''groq'', ''openrouter''] msgs a')"

definition robust_invoke :: "env \<Rightarrow> lc_message list \<Rightarrow> BaseAgent \<Rightarrow> (py_exn + llm_reply) \<times> BaseAgent" where
  \<comment> \<open>\<open>_robust_invoke\<close>, with its outcome appended to \<open>invoke_log\<close>\<close>
  "robust_invoke e msgs a =
     (case invoke_with_fallback e msgs a of
        (r, a') \<Rightarrow> (r, a'\<lparr>invoke_log := invoke_log a' @ [r]\<rparr>))"

definition py_len :: "json \<Rightarrow> py_exn + nat" where
  \<comment> \<open>\<open>len(v)\<close>\<close>
  "py_len v =
     (case v of
        JStr s \<Rightarrow> Inr (py_len_str s)
      | JList xs \<Rightarrow> Inr (length xs)
      | JDict d \<Rightarrow> Inr (length d)
      | _ \<Rightarrow> Inl (TypeError (''object of type '' @ [CHR 0x27] @ py_type_name v @ [CHR 0x27]
                            @ '' has no len()'')))"

definition truncated :: "json \<Rightarrow> py_exn + json" where
  \<comment> \<open>\<open>content[:3000] + "... [TRUNCATED]"\<close>, for a content that has a length: a list
      cannot be added to a string and a dictionary cannot be sliced\<close>
  "truncated v =
     (case v of
        JStr s \<Rightarrow> Inr (JStr (py_take_str 3000 s @ ''... [TRUNCATED]''))
      | JList xs \<Rightarrow> Inl (TypeError (''can only concatenate list (not '' @ [CHR 0x22] @ ''str''
                                     @ [CHR 0x22] @ '') to list''))
      | _ \<Rightarrow> Inl (TypeError (''unhashable type: '' @ [CHR 0x27] @ ''slice'' @ [CHR 0x27])))"

definition history_message :: "env \<Rightarrow> message \<Rightarrow> py_exn + lc_message" where
  \<comment> \<open>the body of \<open>for msg in recent_chat\<close> in \<open>_build_history\<close>\<close>
  "history_message e msg =
     (case py_len (content msg) of
        Inl x \<Rightarrow> Inl x
      | Inr n \<Rightarrow>
          (case (if n > 3000 then truncated (content msg) else Inr (content msg)) of
             Inl x \<Rightarrow> Inl x
           | Inr cnt \<Rightarrow>
               if str_lower e (role msg) = ''user'' then
                 (case cnt of
                    JStr s \<Rightarrow> Inr (HumanMessage (Text s))
                  | _ \<Rightarrow> (case human_content e cnt of
                            Inl x \<Rightarrow> Inl x
                          | Inr c \<Rightarrow> Inr (HumanMessage c)))
               else Inr (AIMessage (Text (''['' @ role msg @ '']: '' @ py_str cnt)) [])))"

fun history_messages :: "env \<Rightarrow> message list \<Rightarrow> py_exn + lc_message list" where
  "history_messages e [] = Inr []"
| "history_messages e (msg # rest) =
     (case history_message e msg of
        Inl x \<Rightarrow> Inl x
      | Inr m \<Rightarrow>
          (case history_messages e rest of
             Inl x \<Rightarrow> Inl x
           | Inr ms \<Rightarrow> Inr (m # ms)))"

definition build_history :: "env \<Rightarrow> BaseAgent \<Rightarrow> py_exn + lc_message list" where
  "build_history e a =
     (case history_fault e of
        Some x \<Rightarrow> Inl x
      | None \<Rightarrow>
          (case history_messages e (get_recent_messages 30 (warm_memory a)) of
             Inl x \<Rightarrow> Inl x
           | Inr ms \<Rightarrow> Inr (SystemMessage (formatted_system_prompt a) # ms)))"

definition run_tool :: "env \<Rightarrow> BaseAgent \<Rightarrow> tool_call \<Rightarrow> py_exn + lc_message" where
  \<comment> \<open>the body of \<open>for tool_call in ai_msg.tool_calls\<close>\<close>
  "run_tool e a tc =
     (let selected_tool = (case tools_map a (tc_name tc) of
                             Some t \<Rightarrow> Some t
                           | None \<Rightarrow> tools_map a (str_lower e (tc_name tc)))
      in case selected_tool of
           Some t \<Rightarrow>
             (case t (tc_args tc) of
                Inr tool_output \<Rightarrow> Inr (ToolMessage tool_output (tc_id tc))
              | Inl x \<Rightarrow>
                  if is_Exception x
                  then Inr (ToolMessage (''Error executing tool: '' @ exn_str x) (tc_id tc))
                  else Inl x)
         | None \<Rightarrow> Inr (ToolMessage (''Error: Tool '' @ tc_name tc @ '' not found.'') (tc_id tc)))"

fun run_tools :: "env \<Rightarrow> BaseAgent \<Rightarrow> tool_call list \<Rightarrow> lc_message list \<Rightarrow> py_exn + lc_message list" where
  "run_tools e a [] msgs = Inr msgs"
| "run_tools e a (tc # tcs) msgs =
     (case run_tool e a tc of Inl x \<Rightarrow> Inl x | Inr m \<Rightarrow> run_tools e a tcs (msgs @ [m]))"

definition MAX_LOOPS :: nat where
  "MAX_LOOPS = 5"

function tool_loop :: "env \<Rightarrow> BaseAgent \<Rightarrow> lc_message list \<Rightarrow> llm_reply \<Rightarrow> nat
    \<Rightarrow> (py_exn + llm_reply) \<times> lc_message list \<times> nat \<times> BaseAgent" where
  \<comment> \<open>\<open>while ai_msg.tool_calls and loop_count < MAX_LOOPS\<close>; the result carries the
      last response (or the exception that left the loop), the message list, the
      value of \<open>loop_count\<close> and the agent\<close>
  "tool_loop e a msgs ai_msg loop_count =
     (if snd ai_msg \<noteq> [] \<and> loop_count < MAX_LOOPS then
        (case run_tools e a (snd ai_msg) msgs of
           Inl x \<Rightarrow> (Inl x, msgs, Suc loop_count, a)
         | Inr msgs1 \<Rightarrow>
             (case robust_invoke e msgs1 a of
                (Inl x, a') \<Rightarrow> (Inl x, msgs1, Suc loop_count, a')
              | (Inr ai', a') \<Rightarrow>
                  tool_loop e a' (msgs1 @ [AIMessage (fst ai') (snd ai')]) ai' (Suc loop_count)))
      else (Inr ai_msg, msgs, loop_count, a))"
  by pat_completeness auto
termination
  by (relation "measure (\<lambda>(e, a, msgs, ai_msg, loop_count). MAX_LOOPS - loop_count)") auto

declare tool_loop.simps [simp del]

fun text_parts :: "json list \<Rightarrow> json list" where
  \<comment> \<open>\<open>[p.get('text', '') for p in final_text if isinstance(p, dict) and 'text' in p]\<close>\<close>
  "text_parts [] = []"
| "text_parts (JDict d # ps) =
     (if map_of d ''text'' \<noteq> None then dict_get d ''text'' (JStr []) # text_parts ps
      else text_parts ps)"
| "text_parts (p # ps) = text_parts ps"

fun str_items :: "nat \<Rightarrow> json list \<Rightarrow> py_exn + string list" where
  \<comment> \<open>\<open>str.join\<close> accepts strings only\<close>
  "str_items i [] = Inr []"
| "str_items i (JStr s # vs) =
     (case str_items (Suc i) vs of Inl x \<Rightarrow> Inl x | Inr ss \<Rightarrow> Inr (s # ss))"
| "str_items i (v # vs) =
     Inl (TypeError (''sequence item '' @ show_nat i @ '': expected str instance, ''
                     @ py_type_name v @ '' found''))"

definition final_text :: "msg_content \<Rightarrow> py_exn + string" where
  "final_text c =
     (case c of
        Text s \<Rightarrow> Inr s
      | Parts ps \<Rightarrow>
          (case str_items 0 (text_parts ps) of
             Inl x \<Rightarrow> Inl x
           | Inr ss \<Rightarrow> Inr (py_join [CHR 0x0A] ss)))"

definition AGENT_ERROR :: string where
  \<comment> \<open>the cross mark U+274C in UTF-8, then \<open>" Agent Error: "\<close>\<close>
  "AGENT_ERROR = [CHR 0xE2, CHR 0x9D, CHR 0x8C] @ '' Agent Error: ''"

text \<open>
  \<open>run_task\<close> in three parts, as the code has them: the two statements before the
  \<open>try\<close> (\<open>before_try\<close>: the task is logged to \<open>WarmMemory\<close> and the history is built),
  steps 3 to 5 inside the \<open>try\<close> up to the text of the final response
  (\<open>final_response\<close>), and the recording of that text (\<open>try_block\<close> is the whole body
  of the \<open>try\<close>). What \<open>before_try\<close> raises leaves \<open>run_task\<close>; what \<open>try_block\<close> raises
  meets \<open>except Exception\<close>.
\<close>

definition before_try :: "env \<Rightarrow> BaseAgent \<Rightarrow> json \<Rightarrow> (py_exn + lc_message list) \<times> BaseAgent" where
  \<comment> \<open>\<open>self.warm_memory.add_message("User", task)\<close>, then \<open>self._build_history()\<close>\<close>
  "before_try e a task =
     (case task_fault e of
        Some x \<Rightarrow> (Inl x, a)
      | None \<Rightarrow>
          (let a1 = a\<lparr>warm_memory := fst (add_message ''User'' task (t_task e) (warm_memory a))\<rparr>
           in (build_history e a1, a1)))"

definition final_response :: "env \<Rightarrow> BaseAgent \<Rightarrow> lc_message list
    \<Rightarrow> (py_exn + string) \<times> nat \<times> lc_message list \<times> BaseAgent" where
  \<comment> \<open>the result carries besides the text the final \<open>loop_count\<close>, the final
      \<open>messages\<close> and the agent\<close>
  "final_response e a msgs =
     (case robust_invoke e msgs a of
        (Inl x, a2) \<Rightarrow> (Inl x, 0, msgs, a2)
      | (Inr ai_msg, a2) \<Rightarrow>
          (case tool_loop e a2 (msgs @ [AIMessage (fst ai_msg) (snd ai_msg)]) ai_msg 0 of
             (Inl x, msgs', n, a3) \<Rightarrow> (Inl x, n, msgs', a3)
           | (Inr ai', msgs', n, a3) \<Rightarrow> (final_text (fst ai'), n, msgs', a3)))"

definition try_block :: "env \<Rightarrow> BaseAgent \<Rightarrow> lc_message list
    \<Rightarrow> (py_exn + string) \<times> nat \<times> lc_message list \<times> BaseAgent" where
  "try_block e a msgs =
     (case final_response e a msgs of
        (Inl x, n, msgs', a3) \<Rightarrow> (Inl x, n, msgs', a3)
      | (Inr txt, n, msgs', a3) \<Rightarrow>
          (case reply_fault e of
             Some x \<Rightarrow> (Inl x, n, msgs', a3)
           | None \<Rightarrow>
               (Inr txt, n, msgs',
                a3\<lparr>warm_memory :=
                     fst (add_message (agent_name a3) (JStr txt) (t_reply e) (warm_memory a3))\<rparr>)))"

record run_result =
  result :: "py_exn + string"
  rounds :: nat
  history :: "lc_message list"
  agent_after :: BaseAgent

definition except_Exception :: "py_exn \<Rightarrow> py_exn + string" where
  \<comment> \<open>\<open>except Exception as e: return f"... Agent Error: {e}"\<close>; anything else propagates\<close>
  "except_Exception x = (if is_Exception x then Inr (AGENT_ERROR @ exn_str x) else Inl x)"

definition run_task_trace :: "env \<Rightarrow> BaseAgent \<Rightarrow> json \<Rightarrow> run_result" where
  \<comment> \<open>\<open>run_task\<close>, returning besides its result the final \<open>loop_count\<close>, the final
      \<open>messages\<close> and the agent\<close>
  "run_task_trace e a task =
     (case before_try e a task of
        (Inl x, a1) \<Rightarrow> \<lparr>result = Inl x, rounds = 0, history = [], agent_after = a1\<rparr>
      | (Inr msgs, a1) \<Rightarrow>
          (case try_block e a1 msgs of
             (r, n, msgs', a3) \<Rightarrow>
               \<lparr>result = (case r of Inl x \<Rightarrow> except_Exception x | Inr txt \<Rightarrow> Inr txt),
                rounds = n, history = msgs', agent_after = a3\<rparr>))"

definition run_task :: "env \<Rightarrow> BaseAgent \<Rightarrow> json \<Rightarrow> py_exn + string" where
  "run_task e a task = result (run_task_trace e a task)"

definition invocations :: "env \<Rightarrow> BaseAgent \<Rightarrow> json \<Rightarrow> (py_exn + llm_reply) list" where
  \<comment> \<open>what the calls of \<open>_robust_invoke\<close> made by \<open>run_task\<close> gave, in order\<close>
  "invocations e a task =
     drop (length (invoke_log a)) (invoke_log (agent_after (run_task_trace e a task)))"


section \<open>agents/router.py: the state graph\<close>

text \<open>
  \<open>AgentState\<close> is a \<open>TypedDict\<close>; nothing checks its annotations at run time. The task
  fields and the Watcher's feedback come straight out of the repaired JSON of a
  model's answer, so they are JSON values, \<open>JNull\<close> standing for \<open>None\<close> and for a
  missing key (\<open>state.get\<close> does not tell them apart). A node returns a dictionary
  that the graph merges into the state: \<open>messages\<close> is appended to, every other key is
  overwritten. The nodes are modelled as functions to the merged state.
  \<open>json_repair.repair_json\<close> is an argument: the repaired value, or an exception.
\<close>

record AgentState =
  user_request :: string
  cleaner_task :: json
  fe_task :: json
  viz_task :: json
  trainer_task :: json
  messages :: "lc_message list"
  last_agent :: "string option"
  watcher_status :: "string option"
  watcher_feedback :: json

definition DEFAULT_CHAT_RESPONSE :: string where
  \<comment> \<open>the check mark U+2705 in UTF-8, then \<open>" Task delegated or completed."\<close>\<close>
  "DEFAULT_CHAT_RESPONSE = [CHR 0xE2, CHR 0x9C, CHR 0x85] @ '' Task delegated or completed.''"

definition router_parse :: "(string \<Rightarrow> py_exn + json) \<Rightarrow> string \<Rightarrow> py_exn + json \<times> (string \<times> json) list" where
  \<comment> \<open>step 2 and 3 of \<open>router_node\<close>: the \<open>try\<close> block and its \<open>except Exception\<close>; the
      result is \<open>(chat_response, tasks)\<close>. \<open>pop\<close> with two arguments exists on
      dictionaries only: on a list it raises \<open>TypeError\<close>, on anything else
      \<open>AttributeError\<close>, and both are caught here\<close>
  "router_parse repair_json reply =
     (case repair_json reply of
        Inr (JDict tasks) \<Rightarrow>
          Inr (dict_get tasks ''chat_response'' (JStr DEFAULT_CHAT_RESPONSE),
               dict_del tasks ''chat_response'')
      | Inr v \<Rightarrow> Inr (JStr (py_strip reply), [])
      | Inl x \<Rightarrow> if is_Exception x then Inr (JStr (py_strip reply), []) else Inl x)"

definition router_node :: "(string \<Rightarrow> py_exn + json) \<Rightarrow> string \<Rightarrow> AgentState \<Rightarrow> py_exn + json \<times> AgentState" where
  \<comment> \<open>\<open>router_node\<close> from the point where the Router model has answered \<open>reply\<close>
      (\<open>response.content\<close>); the result is the chat response it prints and the state\<close>
  "router_node repair_json reply state =
     (case router_parse repair_json reply of
        Inl x \<Rightarrow> Inl x
      | Inr (chat_response, tasks) \<Rightarrow>
          Inr (chat_response,
               state\<lparr>cleaner_task := dict_get tasks ''cleaner_task'' JNull,
                     fe_task := dict_get tasks ''fe_task'' JNull,
                     viz_task := dict_get tasks ''viz_task'' JNull,
                     trainer_task := dict_get tasks ''trainer_task'' JNull,
                     messages := messages state
                       @ [AIMessage (Text (''Router Decision: '' @ py_str (JDict tasks))) []]\<rparr>))"

definition run_agent_safely :: "(json \<Rightarrow> py_exn + string) \<Rightarrow> json \<Rightarrow> AgentState \<Rightarrow> py_exn + string" where
  "run_agent_safely agent_func task0 state =
     (let task = (if watcher_status state = Some ''RETRY''
                  then JStr (''FEEDBACK_FROM_WATCHER: '' @ py_str (watcher_feedback state)
                             @ [CHR 0x0A, CHR 0x0A] @ ''ORIGINAL_TASK: '' @ py_str task0)
                  else task0)
      in case agent_func task of
           Inl KeyboardInterrupt \<Rightarrow> Inr ''Task interrupted by user.''
         | r \<Rightarrow> r)"

definition cleaner_node :: "(json \<Rightarrow> py_exn + string) \<Rightarrow> AgentState \<Rightarrow> py_exn + AgentState" where
  "cleaner_node run_task_f state =
     (let task = cleaner_task state
      in if \<not> truthy task then Inr state
         else case run_agent_safely run_task_f task state of
                Inl x \<Rightarrow> Inl x
              | Inr res \<Rightarrow>
                  Inr (state\<lparr>messages := messages state @ [AIMessage (Text (''Cleaner: '' @ res)) []],
                             last_agent := Some ''cleaner''\<rparr>))"

definition fe_node :: "(json \<Rightarrow> py_exn + string) \<Rightarrow> AgentState \<Rightarrow> py_exn + AgentState" where
  "fe_node run_task_f state =
     (let task = fe_task state
      in if \<not> truthy task then Inr state
         else case run_agent_safely run_task_f task state of
                Inl x \<Rightarrow> Inl x
              | Inr res \<Rightarrow>
                  Inr (state\<lparr>messages := messages state @ [AIMessage (Text (''FE: '' @ res)) []],
                             last_agent := Some ''feature_engineer''\<rparr>))"

definition viz_node :: "(json \<Rightarrow> py_exn + string) \<Rightarrow> AgentState \<Rightarrow> py_exn + AgentState" where
  "viz_node run_task_f state =
     (let task = viz_task state
      in if \<not> truthy task then Inr state
         else case run_agent_safely run_task_f task state of
                Inl x \<Rightarrow> Inl x
              | Inr res \<Rightarrow>
                  Inr (state\<lparr>messages := messages state
                               @ [AIMessage (Text (''Visualizer: '' @ res)) []]\<rparr>))"

definition trainer_node :: "(json \<Rightarrow> py_exn + string) \<Rightarrow> AgentState \<Rightarrow> py_exn + AgentState" where
  "trainer_node run_task_f state =
     (let task = trainer_task state
      in if \<not> truthy task then Inr state
         else case run_agent_safely run_task_f task state of
                Inl x \<Rightarrow> Inl x
              | Inr res \<Rightarrow>
                  Inr (state\<lparr>messages := messages state
                               @ [AIMessage (Text (''Trainer: '' @ res)) []]\<rparr>))"

fun lc_content :: "lc_message \<Rightarrow> json" where
  \<comment> \<open>the \<open>content\<close> attribute of a message\<close>
  "lc_content (SystemMessage s) = JStr s"
| "lc_content (HumanMessage (Text s)) = JStr s"
| "lc_content (HumanMessage (Parts ps)) = JList ps"
| "lc_content (AIMessage (Text s) tcs) = JStr s"
| "lc_content (AIMessage (Parts ps) tcs) = JList ps"
| "lc_content (ToolMessage s i) = JStr s"

definition verdict :: "string \<Rightarrow> json \<Rightarrow> AgentState \<Rightarrow> AgentState" where
  \<comment> \<open>merging \<open>{"watcher_status": st, "watcher_feedback": fb}\<close> into the state\<close>
  "verdict st fb state = state\<lparr>watcher_status := Some st, watcher_feedback := fb\<rparr>"

definition watcher_node :: "(string \<Rightarrow> py_exn + json) \<Rightarrow> (string \<Rightarrow> py_exn + string) \<Rightarrow> AgentState \<Rightarrow> py_exn + AgentState" where
  \<comment> \<open>\<open>watcher_run\<close> is \<open>watcher_agent.run_task\<close>\<close>
  "watcher_node repair_json watcher_run state =
     (let last_agent_output =
            (if messages state \<noteq> [] then lc_content (last (messages state)) else JStr [])
      in case watcher_run (''Review this output: '' @ py_str last_agent_output) of
           Inl KeyboardInterrupt \<Rightarrow>
             Inr (verdict ''INTERRUPTED'' (JStr ''Watcher interrupted by user.'') state)
         | Inl x \<Rightarrow> Inl x
         | Inr review \<Rightarrow>
             (case repair_json review of
                Inl x \<Rightarrow>
                  if is_Exception x
                  then Inr (verdict ''PASS''
                              (JStr ''Watcher output unparseable, defaulting to PASS.'') state)
                  else Inl x
              | Inr (JDict cleaned_review) \<Rightarrow>
                  (case dict_get cleaned_review ''status'' (JStr ''PASS'') of
                     JStr st \<Rightarrow>
                       (let status0 = py_upper st;
                            feedback = dict_get cleaned_review ''feedback''
                                         (JStr ''No feedback provided.'');
                            status = (if status0 = ''RETRY'' then ''FAIL'' else status0)
                        in if status = ''FAIL'' then Inr (verdict ''FAIL'' feedback state)
                           else if status = ''WARN'' then Inr (verdict ''WARN'' feedback state)
                           else Inr (verdict ''PASS'' feedback state))
                   | v \<Rightarrow> Inl (no_attribute v ''upper''))
              | Inr v \<Rightarrow> Inl (no_attribute v ''get'')))"

datatype route = Goto string | Fanout "string list"

definition END :: string where
  "END = ''__end__''"

definition route_after_router :: "AgentState \<Rightarrow> route" where
  "route_after_router state =
     (if truthy (cleaner_task state) then Goto ''cleaner''
      else if truthy (fe_task state) then Goto ''feature_engineer''
      else if truthy (viz_task state) then Goto ''visualizer''
      else if truthy (trainer_task state) then Goto ''trainer''
      else Goto END)"

definition route_after_watcher :: "AgentState \<Rightarrow> route" where
  "route_after_watcher state =
     (let last = last_agent state
      in if watcher_status state = Some ''FAIL'' then Goto ''router''
         else if last = Some ''cleaner'' \<and> truthy (fe_task state) then Goto ''feature_engineer''
         else if last = Some ''cleaner'' \<or> last = Some ''feature_engineer'' then
           (let next_nodes = (if truthy (viz_task state) then [''visualizer''] else [])
                             @ (if truthy (trainer_task state) then [''trainer''] else [])
            in if next_nodes \<noteq> [] then Fanout next_nodes else Goto END)
         else Goto END)"


definition initial_state :: "string \<Rightarrow> AgentState" where
  \<comment> \<open>the state that the interactive loop hands to the graph for a request\<close>
  "initial_state user_input =
     \<lparr>user_request = user_input,
      cleaner_task = JNull, fe_task = JNull, viz_task = JNull, trainer_task = JNull,
      messages = [HumanMessage (Text user_input)],
      last_agent = None,
      watcher_status = Some ''PASS'',
      watcher_feedback = JStr []\<rparr>"

definition WarmMemory_init :: "string \<Rightarrow> bool \<Rightarrow> WarmMemory" where
  \<comment> \<open>a \<open>WarmMemory\<close> on stores that hold nothing yet; the flag is the outcome of \<open>ping\<close>\<close>
  "WarmMemory_init sid redis_up =
     \<lparr>session_id = sid, use_redis = redis_up,
      redis_lists = (\<lambda>k. []), redis_hashes = (\<lambda>k. Map.empty),
      local_chat = Map.empty, local_meta = Map.empty\<rparr>"


section \<open>Behaviours of the language model and the tools\<close>

text \<open>
  Predicates on the environment of an agent:
  an attempt fails when \<open>invoke\<close> raises an \<open>Exception\<close>; every provider fails when the
  active one and the three of the fallback sequence do, the first failure not being
  a tool-validation error; a model always answers when no call of \<open>invoke\<close> raises,
  and always requests tools when moreover every response carries a tool call; the
  tools return when none of them is interrupted.
\<close>

definition fails :: "env \<Rightarrow> nat \<Rightarrow> string \<Rightarrow> lc_message list \<Rightarrow> bool" where
  "fails e n p msgs = (case llm e n p msgs of Inl x \<Rightarrow> is_Exception x | Inr r \<Rightarrow> False)"

definition tool_validation_error :: "env \<Rightarrow> nat \<Rightarrow> string \<Rightarrow> lc_message list \<Rightarrow> bool" where
  "tool_validation_error e n p msgs =
     (case llm e n p msgs of
        Inl x \<Rightarrow> py_in ''tool call validation failed'' (exn_str x)
                 \<or> py_in ''not in request.tools'' (exn_str x)
      | Inr r \<Rightarrow> False)"

definition all_providers_fail :: "env \<Rightarrow> lc_message list \<Rightarrow> BaseAgent \<Rightarrow> bool" where
  "all_providers_fail e msgs a =
     (fails e (llm_calls a) (provider a) msgs
      \<and> \<not> tool_validation_error e (llm_calls a) (provider a) msgs
      \<and> fails e (Suc (llm_calls a)) ''gemini'' msgs
      \<and> fails e (Suc (Suc (llm_calls a))) ''groq'' msgs
      \<and> fails e (Suc (Suc (Suc (llm_calls a)))) ''openrouter'' msgs)"




text \<open>
  Environments and an agent for the concrete runs. \<open>env_of\<close> is the environment of a
  model on a store that answers, with tasks and tool names in ASCII (\<open>py_lower\<close>) and
  a \<open>HumanMessage\<close> that accepts a list content and nothing else that is not a string.
  The models: one that no provider reaches; one that asks for the interpreter in
  every response; and one that asks for the interpreter once and is out of reach
  from then on. \<open>REDIS_DOWN\<close> is the connection error of the Redis client.
\<close>

definition list_content :: "json \<Rightarrow> py_exn + msg_content" where
  "list_content v =
     (case v of
        JList xs \<Rightarrow> Inr (Parts xs)
      | _ \<Rightarrow> Inl (Exception ''1 validation error for HumanMessage''))"

definition env_of :: "(nat \<Rightarrow> string \<Rightarrow> lc_message list \<Rightarrow> py_exn + llm_reply) \<Rightarrow> env" where
  "env_of model =
     \<lparr>llm = model,
      t_task = ''2025-01-01T10:00:00'', t_reply = ''2025-01-01T10:00:05'',
      str_lower = py_lower, human_content = list_content,
      task_fault = None, history_fault = None, reply_fault = None\<rparr>"

definition interpreter_call :: "nat \<Rightarrow> tool_call" where
  "interpreter_call n =
     \<lparr>tc_name = ''Python_Interpreter'',
      tc_args = JDict [(''code'', JStr ''print(df.shape)'')],
      tc_id = ''call_'' @ show_nat n\<rparr>"

definition dead_env :: env where
  "dead_env = env_of (\<lambda>n p msgs. Inl (Exception ''Connection error.''))"

definition eager_env :: env where
  "eager_env = env_of (\<lambda>n p msgs. Inr (Text (''answer '' @ show_nat n), [interpreter_call n]))"

definition flaky_env :: env where
  "flaky_env =
     env_of (\<lambda>n p msgs. if n = 0 then Inr (Text ''answer 0'', [interpreter_call 0])
                         else Inl (Exception ''Connection error.''))"

definition REDIS_DOWN :: py_exn where
  "REDIS_DOWN = Exception ''Error 111 connecting to localhost:6379. Connection refused.''"

definition cleaner_agent :: BaseAgent where
  "cleaner_agent =
     \<lparr>agent_name = ''Cleaner'',
      formatted_system_prompt = ''You are the Cleaner.'',
      tools_map = [''python_interpreter'' \<mapsto> (\<lambda>args. Inr ''(120, 7)'')],
      warm_memory = WarmMemory_init ''shared_session_v1'' False,
      provider = ''default'',
      llm_calls = 0,
      invoke_log = []\<rparr>"

section \<open>The json module, for the concrete runs\<close>





definition is_ws :: "char \<Rightarrow> bool" where
  "is_ws c = (c = CHR '' '' \<or> c = CHR 0x09 \<or> c = CHR 0x0A \<or> c = CHR 0x0D)"

definition skip_ws :: "string \<Rightarrow> string" where
  "skip_ws s = dropWhile is_ws s"

definition is_digit :: "char \<Rightarrow> bool" where
  "is_digit c = (48 \<le> (of_char c :: nat) \<and> (of_char c :: nat) \<le> 57)"

definition nat_of_digits :: "string \<Rightarrow> nat" where
  "nat_of_digits ds = foldl (\<lambda>n c. 10 * n + ((of_char c :: nat) - 48)) 0 ds"

definition float_follows :: "string \<Rightarrow> bool" where
  \<comment> \<open>a fraction \<open>\.\d+\<close> or an exponent \<open>[eE][-+]?\d+\<close> comes next\<close>
  "float_follows s =
     (case s of
        [] \<Rightarrow> False
      | c # t \<Rightarrow>
          if c = CHR ''.'' then (case t of [] \<Rightarrow> False | d # u \<Rightarrow> is_digit d)
          else if c = CHR ''e'' \<or> c = CHR ''E'' then
            (case t of
               [] \<Rightarrow> False
             | d # u \<Rightarrow>
                 if d = CHR ''+'' \<or> d = CHR ''-''
                 then (case u of [] \<Rightarrow> False | d2 # v \<Rightarrow> is_digit d2)
                 else is_digit d)
          else False)"

definition scan_number :: "string \<Rightarrow> (json \<times> string) option" where
  \<comment> \<open>\<open>-?(0|[1-9]\d*)\<close> not followed by a fraction or an exponent\<close>
  "scan_number s =
     (let neg = (case s of [] \<Rightarrow> False | c # t \<Rightarrow> c = CHR ''-'');
          s1 = (if neg then tl s else s)
      in case s1 of
           [] \<Rightarrow> None
         | c # t \<Rightarrow>
             if \<not> is_digit c then None
             else
               (let ds = (if c = CHR ''0'' then [c] else takeWhile is_digit s1);
                    rest = drop (length ds) s1
                in if float_follows rest then None
                   else Some (JInt (if neg then - int (nat_of_digits ds) else int (nat_of_digits ds)),
                              rest)))"

definition hex_val :: "char \<Rightarrow> nat option" where
  "hex_val c =
     (let n = (of_char c :: nat)
      in if 48 \<le> n \<and> n \<le> 57 then Some (n - 48)
         else if 97 \<le> n \<and> n \<le> 102 then Some (n - 87)
         else if 65 \<le> n \<and> n \<le> 70 then Some (n - 55)
         else None)"

definition unescape :: "char \<Rightarrow> char option" where
  "unescape e =
     (if e = CHR 0x22 then Some (CHR 0x22)
      else if e = CHR 0x5C then Some (CHR 0x5C)
      else if e = CHR ''/'' then Some (CHR ''/'')
      else if e = CHR ''b'' then Some (CHR 0x08)
      else if e = CHR ''f'' then Some (CHR 0x0C)
      else if e = CHR ''n'' then Some (CHR 0x0A)
      else if e = CHR ''r'' then Some (CHR 0x0D)
      else if e = CHR ''t'' then Some (CHR 0x09)
      else None)"

definition unicode_escape :: "string \<Rightarrow> char option" where
  \<comment> \<open>the four hexadecimal digits after \<open>\u\<close>, for a code below 128\<close>
  "unicode_escape h =
     (case map hex_val h of
        [Some a, Some b, Some c, Some d] \<Rightarrow>
          (let n = 4096 * a + 256 * b + 16 * c + d
           in if n < 128 then Some (char_of n) else None)
      | _ \<Rightarrow> None)"

fun scan_string :: "string \<Rightarrow> (string \<times> string) option" where
  \<comment> \<open>the text after an opening quote, up to the closing one\<close>
  "scan_string [] = None"
| "scan_string (c # cs) =
     (if c = CHR 0x22 then Some ([], cs)
      else if c = CHR 0x5C then
        (case cs of
           [] \<Rightarrow> None
         | e # rest \<Rightarrow>
             if e = CHR ''u'' then
               (case unicode_escape (take 4 rest) of
                  None \<Rightarrow> None
                | Some ch \<Rightarrow>
                    (case scan_string (drop 4 rest) of
                       None \<Rightarrow> None
                     | Some (s, r) \<Rightarrow> Some (ch # s, r)))
             else
               (case unescape e of
                  None \<Rightarrow> None
                | Some ch \<Rightarrow>
                    (case scan_string rest of
                       None \<Rightarrow> None
                     | Some (s, r) \<Rightarrow> Some (ch # s, r))))
      else if (of_char c :: nat) < 32 then None
      else (case scan_string cs of None \<Rightarrow> None | Some (s, r) \<Rightarrow> Some (c # s, r)))"

definition dict_set :: "(string \<times> json) list \<Rightarrow> string \<Rightarrow> json \<Rightarrow> (string \<times> json) list" where
  \<comment> \<open>\<open>d[k] = v\<close>: a key that is there keeps its place\<close>
  "dict_set d k v =
     (if k \<in> fst ` set d then map (\<lambda>kv. if fst kv = k then (k, v) else kv) d else d @ [(k, v)])"

fun scan_value :: "nat \<Rightarrow> string \<Rightarrow> (json \<times> string) option"
  and scan_elems :: "nat \<Rightarrow> string \<Rightarrow> (json list \<times> string) option"
  and scan_members :: "nat \<Rightarrow> string \<Rightarrow> ((string \<times> json) list \<times> string) option" where
  "scan_value 0 s = None"
| "scan_value (Suc n) s =
     (case s of
        [] \<Rightarrow> None
      | c # t \<Rightarrow>
          if c = CHR 0x22 then
            (case scan_string t of None \<Rightarrow> None | Some (x, r) \<Rightarrow> Some (JStr x, r))
          else if c = CHR ''{'' then
            (case skip_ws t of
               [] \<Rightarrow> None
             | d # r \<Rightarrow>
                 if d = CHR ''}'' then Some (JDict [], r)
                 else (case scan_members n (d # r) of
                         None \<Rightarrow> None
                       | Some (kvs, r') \<Rightarrow> Some (JDict (foldl (\<lambda>d (k, v). dict_set d k v) [] kvs), r')))
          else if c = CHR ''['' then
            (case skip_ws t of
               [] \<Rightarrow> None
             | d # r \<Rightarrow>
                 if d = CHR '']'' then Some (JList [], r)
                 else (case scan_elems n (d # r) of
                         None \<Rightarrow> None
                       | Some (vs, r') \<Rightarrow> Some (JList vs, r')))
          else if take 4 s = ''null'' then Some (JNull, drop 4 s)
          else if take 4 s = ''true'' then Some (JBool True, drop 4 s)
          else if take 5 s = ''false'' then Some (JBool False, drop 5 s)
          else scan_number s)"
| "scan_elems 0 s = None"
| "scan_elems (Suc n) s =
     (case scan_value n s of
        None \<Rightarrow> None
      | Some (v, r) \<Rightarrow>
          (case skip_ws r of
             [] \<Rightarrow> None
           | d # r' \<Rightarrow>
               if d = CHR '']'' then Some ([v], r')
               else if d = CHR '','' then
                 (case scan_elems n (skip_ws r') of
                    None \<Rightarrow> None
                  | Some (vs, r'') \<Rightarrow> Some (v # vs, r''))
               else None))"
| "scan_members 0 s = None"
| "scan_members (Suc n) s =
     (case s of
        [] \<Rightarrow> None
      | q # t \<Rightarrow>
          if q \<noteq> CHR 0x22 then None
          else
            (case scan_string t of
               None \<Rightarrow> None
             | Some (k, r) \<Rightarrow>
                 (case skip_ws r of
                    [] \<Rightarrow> None
                  | c # r1 \<Rightarrow>
                      if c \<noteq> CHR '':'' then None
                      else
                        (case scan_value n (skip_ws r1) of
                           None \<Rightarrow> None
                         | Some (v, r2) \<Rightarrow>
                             (case skip_ws r2 of
                                [] \<Rightarrow> None
                              | d # r3 \<Rightarrow>
                                  if d = CHR ''}'' then Some ([(k, v)], r3)
                                  else if d = CHR '','' then
                                    (case scan_members n (skip_ws r3) of
                                       None \<Rightarrow> None
                                     | Some (kvs, r4) \<Rightarrow> Some ((k, v) # kvs, r4))
                                  else None)))))"



text \<open>
  Environments for the concrete runs below. \<open>json_repair\<close> answers the empty string
  for a text it can make nothing of; raising is the other way for a repair to fail.
  \<open>echo_agent\<close> answers with the task it was given, so that the task shows in the
  transcript. \<open>failed_state\<close> is a state as the Watcher leaves it after a \<open>FAIL\<close>
  verdict on the Cleaner, with a task planned for every worker.
\<close>

definition repair_gives_up :: "string \<Rightarrow> py_exn + json" where
  "repair_gives_up text = Inr (JStr [])"

definition repair_raises :: "string \<Rightarrow> py_exn + json" where
  "repair_raises text = Inl (Exception ''Expecting value: line 1 column 1 (char 0)'')"

definition echo_agent :: "json \<Rightarrow> py_exn + string" where
  "echo_agent task = Inr (py_str task)"

definition failed_state :: AgentState where
  "failed_state =
     (initial_state ''clean, engineer, plot and fit'')
       \<lparr>cleaner_task := JStr ''Drop rows with null age'',
        fe_task := JStr ''Add income per head'',
        viz_task := JStr ''Plot age by income'',
        trainer_task := JStr ''Fit a regression'',
        last_agent := Some ''cleaner'',
        watcher_status := Some ''FAIL'',
        watcher_feedback := JStr ''Nulls remain in column age''\<rparr>"

definition watcher_replies :: "string \<Rightarrow> string \<Rightarrow> py_exn + string" where
  "watcher_replies review task = Inr review"

fun is_dict :: "json \<Rightarrow> bool" where
  "is_dict (JDict d) = True"
| "is_dict _ = False"

definition no_task_object :: "(string \<Rightarrow> py_exn + json) \<Rightarrow> string \<Rightarrow> bool" where
  \<comment> \<open>the text cannot be parsed into a task object even with repair: the repair
      raises an error, or what it returns is not a dictionary\<close>
  "no_task_object repair_json reply =
     (case repair_json reply of Inl x \<Rightarrow> is_Exception x | Inr v \<Rightarrow> \<not> is_dict v)"

section \<open>Properties of HotMemory\<close>

lemma sentinel_has_marker: "py_in ''No global context set'' NO_CONTEXT"
  unfolding py_in_def NO_CONTEXT_def
  by (simp add: sublist_Cons_right)

text \<open>
  C10. \<open>get_context\<close> never returns the empty string. After \<open>set_context("")\<close>, whether
  or not the file write succeeded, \<open>get_context\<close> on that object returns the sentinel
  \<open>"No global context set. Please run Contextor first."\<close> (it does not change the
  object, so every later call returns it too); when the write succeeded, so does
  every \<open>HotMemory\<close> that is constructed from the file afterwards. The test
  \<open>"No global context set" in context\<close> used by \<open>BaseAgent.__init__\<close> is true of the
  sentinel.
\<close>

theorem C10_get_context_sentinel:
  "get_context h \<noteq> []
   \<and> get_context (fst (set_context write_ok [] (h, file))) = NO_CONTEXT
   \<and> get_context (HotMemory_init (snd (set_context True [] (h, file)))) = NO_CONTEXT
   \<and> NO_CONTEXT = ''No global context set. Please run Contextor first.''
   \<and> py_in ''No global context set'' NO_CONTEXT"
proof -
  have a: "get_context h \<noteq> []"
    by (simp add: get_context_def NO_CONTEXT_def)
  have b: "get_context (fst (set_context write_ok [] (h, file))) = NO_CONTEXT"
    by (simp add: get_context_def set_context_def)
  have c: "get_context (HotMemory_init (snd (set_context True [] (h, file)))) = NO_CONTEXT"
    by (simp add: get_context_def set_context_def HotMemory_init_def
          load_context_from_file_def save_context_to_file_def)
  from a b c sentinel_has_marker show ?thesis
    by (simp add: NO_CONTEXT_def)
qed

section \<open>Auxiliary facts about the message queue\<close>










section \<open>Properties of WarmMemory\<close>



section \<open>Properties of the routing functions\<close>

text \<open>
  C2. For every state whose \<open>watcher_status\<close> is \<open>"FAIL"\<close>, \<open>route_after_watcher\<close>
  returns \<open>"router"\<close>, whatever \<open>last_agent\<close> and the task fields are.
\<close>

theorem C2_fail_routes_to_router:
  assumes "watcher_status state = Some ''FAIL''"
  shows "route_after_watcher state = Goto ''router''"
  using assms by (simp add: route_after_watcher_def)

text \<open>C2 at a state where the Cleaner ran last and a Visualizer task is pending.\<close>

theorem C2_fail_routes_to_router_witness:
  "watcher_status ((initial_state ''plot sales'')
       \<lparr>viz_task := JStr ''plot sales'', last_agent := Some ''cleaner'',
        watcher_status := Some ''FAIL''\<rparr>) = Some ''FAIL''
   \<and> route_after_watcher ((initial_state ''plot sales'')
       \<lparr>viz_task := JStr ''plot sales'', last_agent := Some ''cleaner'',
        watcher_status := Some ''FAIL''\<rparr>) = Goto ''router''"
  using C2_fail_routes_to_router
          [of "(initial_state ''plot sales'')
                 \<lparr>viz_task := JStr ''plot sales'', last_agent := Some ''cleaner'',
                  watcher_status := Some ''FAIL''\<rparr>"]
  by simp

text \<open>
  C8 as stated fails: with both a Visualizer and a Trainer task and the verdict
  \<open>PASS\<close>, a state in which the Cleaner ran last and a Feature Engineer task is
  pending is routed to \<open>"feature_engineer"\<close> alone.
\<close>

theorem C8_fan_out_counterexample:
  "truthy (viz_task ((initial_state ''go'')
       \<lparr>fe_task := JStr ''add ratio'', viz_task := JStr ''plot'', trainer_task := JStr ''fit'',
        last_agent := Some ''cleaner''\<rparr>))
   \<and> truthy (trainer_task ((initial_state ''go'')
       \<lparr>fe_task := JStr ''add ratio'', viz_task := JStr ''plot'', trainer_task := JStr ''fit'',
        last_agent := Some ''cleaner''\<rparr>))
   \<and> watcher_status ((initial_state ''go'')
       \<lparr>fe_task := JStr ''add ratio'', viz_task := JStr ''plot'', trainer_task := JStr ''fit'',
        last_agent := Some ''cleaner''\<rparr>) = Some ''PASS''
   \<and> route_after_watcher ((initial_state ''go'')
       \<lparr>fe_task := JStr ''add ratio'', viz_task := JStr ''plot'', trainer_task := JStr ''fit'',
        last_agent := Some ''cleaner''\<rparr>) = Goto ''feature_engineer''"
  by (simp add: route_after_watcher_def initial_state_def)

text \<open>
  C8, amended. For every state in which \<open>viz_task\<close> and \<open>trainer_task\<close> are both
  non-empty, the Watcher's verdict is \<open>PASS\<close>, and either the Feature Engineer ran
  last or the Cleaner ran last and no Feature Engineer task is pending,
  \<open>route_after_watcher\<close> returns the list \<open>["visualizer", "trainer"]\<close>.
\<close>

theorem C8_fan_out:
  assumes "truthy (viz_task state)" and "truthy (trainer_task state)"
    and "watcher_status state = Some ''PASS''"
    and "last_agent state = Some ''feature_engineer''
         \<or> (last_agent state = Some ''cleaner'' \<and> \<not> truthy (fe_task state))"
  shows "route_after_watcher state = Fanout [''visualizer'', ''trainer'']"
  using assms by (auto simp: route_after_watcher_def)

text \<open>C8 (amended) at a state where the Feature Engineer ran last.\<close>

theorem C8_fan_out_witness:
  "truthy (viz_task ((initial_state ''go'')
       \<lparr>viz_task := JStr ''plot'', trainer_task := JStr ''fit'',
        last_agent := Some ''feature_engineer''\<rparr>))
   \<and> route_after_watcher ((initial_state ''go'')
       \<lparr>viz_task := JStr ''plot'', trainer_task := JStr ''fit'',
        last_agent := Some ''feature_engineer''\<rparr>) = Fanout [''visualizer'', ''trainer'']"
  using C8_fan_out [of "(initial_state ''go'')
       \<lparr>viz_task := JStr ''plot'', trainer_task := JStr ''fit'',
        last_agent := Some ''feature_engineer''\<rparr>"]
  by (simp add: initial_state_def)

text \<open>
  C6 as stated fails on the chat response: the fallback prints \<open>content.strip()\<close>, so
  an answer with a line feed on either side comes out without them, which is not the
  raw text.
\<close>

theorem C6_chat_response_counterexample:
  "map_sum id fst
     (router_node repair_gives_up ([CHR 0x0A] @ ''I can help with that.'' @ [CHR 0x0A])
        (initial_state ''hello''))
   = Inr (JStr ''I can help with that.'')
   \<and> ''I can help with that.'' \<noteq> [CHR 0x0A] @ ''I can help with that.'' @ [CHR 0x0A]"
proof -
  have s: "py_strip ([CHR 0x0A] @ ''I can help with that.'' @ [CHR 0x0A]) = ''I can help with that.''"
    by code_simp
  then show ?thesis
    by (simp add: router_node_def router_parse_def repair_gives_up_def)
qed

text \<open>
  C6, amended. For every answer of the Router model that cannot be parsed into a task
  object even with repair (the repair raises an error, or returns something that is
  not a dictionary), \<open>router_node\<close> sets \<open>cleaner_task\<close>, \<open>fe_task\<close>, \<open>viz_task\<close> and
  \<open>trainer_task\<close> to \<open>None\<close>, the chat response is the answer with the white space at
  both ends stripped, and \<open>route_after_router\<close> on the resulting state is \<open>END\<close>.
\<close>

theorem C6_unparseable_reply:
  assumes "no_task_object repair_json reply"
  shows "router_node repair_json reply state
         = Inr (JStr (py_strip reply),
                state\<lparr>cleaner_task := JNull, fe_task := JNull, viz_task := JNull,
                      trainer_task := JNull,
                      messages := messages state @ [AIMessage (Text ''Router Decision: {}'') []]\<rparr>)
       \<and> route_after_router
           (state\<lparr>cleaner_task := JNull, fe_task := JNull, viz_task := JNull,
                  trainer_task := JNull,
                  messages := messages state @ [AIMessage (Text ''Router Decision: {}'') []]\<rparr>)
         = Goto END"
proof -
  have p: "router_parse repair_json reply = Inr (JStr (py_strip reply), [])"
    using assms
    by (auto simp: no_task_object_def router_parse_def split: sum.splits json.splits)
  show ?thesis
    by (simp add: router_node_def p dict_get_def route_after_router_def)
qed

text \<open>
  C6 (amended) for an answer in plain prose, which the repair gives up on. The answer
  starts with an ideographic space (U+3000) and ends with a no-break space (U+00A0)
  and a line feed; all three are stripped.
\<close>

theorem C6_unparseable_reply_witness:
  "no_task_object repair_gives_up
     ([CHR 0xE3, CHR 0x80, CHR 0x80] @ ''I can help with that.'' @ [CHR 0xC2, CHR 0xA0, CHR 0x0A])
   \<and> router_node repair_gives_up
        ([CHR 0xE3, CHR 0x80, CHR 0x80] @ ''I can help with that.'' @ [CHR 0xC2, CHR 0xA0, CHR 0x0A])
        (initial_state ''hello'')
      = Inr (JStr ''I can help with that.'',
             (initial_state ''hello'')
               \<lparr>cleaner_task := JNull, fe_task := JNull, viz_task := JNull, trainer_task := JNull,
                messages := [HumanMessage (Text ''hello''), AIMessage (Text ''Router Decision: {}'') []]\<rparr>)
   \<and> route_after_router
        ((initial_state ''hello'')
           \<lparr>cleaner_task := JNull, fe_task := JNull, viz_task := JNull, trainer_task := JNull,
            messages := [HumanMessage (Text ''hello''), AIMessage (Text ''Router Decision: {}'') []]\<rparr>)
      = Goto ''__end__''"
proof -
  let ?reply = "[CHR 0xE3, CHR 0x80, CHR 0x80] @ ''I can help with that.'' @ [CHR 0xC2, CHR 0xA0, CHR 0x0A]"
  have a: "no_task_object repair_gives_up ?reply"
    by (simp add: no_task_object_def repair_gives_up_def)
  have s: "py_strip ?reply = ''I can help with that.''"
    by code_simp
  have m: "messages (initial_state ''hello'') = [HumanMessage (Text ''hello'')]"
    by (simp add: initial_state_def)
  from C6_unparseable_reply [OF a, of "initial_state ''hello''"] a show ?thesis
    unfolding s END_def m by simp
qed

section \<open>Properties of the worker nodes and the Watcher\<close>

lemma run_agent_safely_plain:
  assumes "watcher_status state \<noteq> Some ''RETRY''"
  shows "run_agent_safely agent_func task state =
           (case agent_func task of
              Inl KeyboardInterrupt \<Rightarrow> Inr ''Task interrupted by user.''
            | r \<Rightarrow> r)"
  using assms by (simp add: run_agent_safely_def)

lemma run_agent_safely_retry:
  assumes "watcher_status state = Some ''RETRY''"
  shows "run_agent_safely agent_func task state =
           (case agent_func (JStr (''FEEDBACK_FROM_WATCHER: '' @ py_str (watcher_feedback state)
                             @ [CHR 0x0A, CHR 0x0A] @ ''ORIGINAL_TASK: '' @ py_str task)) of
              Inl KeyboardInterrupt \<Rightarrow> Inr ''Task interrupted by user.''
            | r \<Rightarrow> r)"
  using assms by (simp add: run_agent_safely_def)

lemma watcher_node_status:
  assumes "watcher_node repair_json watcher_run state = Inr state'"
  shows "watcher_status state' \<in> {Some ''PASS'', Some ''WARN'', Some ''FAIL'', Some ''INTERRUPTED''}"
  using assms
  by (auto simp: watcher_node_def verdict_def Let_def
           split: sum.splits py_exn.splits json.splits if_splits)

lemma watcher_node_never_retry:
  assumes "watcher_node repair_json watcher_run state = Inr state'"
  shows "watcher_status state' \<noteq> Some ''RETRY''"
  using watcher_node_status [OF assms] by auto

text \<open>
  C4. The claim fails on the code for the status \<open>FAIL\<close>: \<open>run_agent_safely\<close> wraps the
  feedback only when \<open>watcher_status\<close> is \<open>"RETRY"\<close>, a status that \<open>watcher_node\<close> turns
  into \<open>"FAIL"\<close> and never writes (\<open>watcher_node_never_retry\<close>). On the state that
  the Watcher leaves after a \<open>FAIL\<close> verdict, each of the four worker nodes hands its
  agent the task alone: the transcript of the echoing agent shows the task without
  the feedback.
\<close>

theorem C4_feedback_not_wrapped_on_fail:
  "watcher_status failed_state = Some ''FAIL''
   \<and> watcher_feedback failed_state = JStr ''Nulls remain in column age''
   \<and> cleaner_node echo_agent failed_state
      = Inr (failed_state
               \<lparr>messages := messages failed_state
                  @ [AIMessage (Text ''Cleaner: Drop rows with null age'') []],
                last_agent := Some ''cleaner''\<rparr>)
   \<and> fe_node echo_agent failed_state
      = Inr (failed_state
               \<lparr>messages := messages failed_state
                  @ [AIMessage (Text ''FE: Add income per head'') []],
                last_agent := Some ''feature_engineer''\<rparr>)
   \<and> viz_node echo_agent failed_state
      = Inr (failed_state
               \<lparr>messages := messages failed_state
                  @ [AIMessage (Text ''Visualizer: Plot age by income'') []]\<rparr>)
   \<and> trainer_node echo_agent failed_state
      = Inr (failed_state
               \<lparr>messages := messages failed_state
                  @ [AIMessage (Text ''Trainer: Fit a regression'') []]\<rparr>)"
  by (simp add: cleaner_node_def fe_node_def viz_node_def trainer_node_def
        run_agent_safely_def echo_agent_def failed_state_def initial_state_def)

text \<open>With the legacy status the same node does wrap the feedback.\<close>

lemma legacy_retry_wraps:
  "cleaner_node echo_agent (failed_state\<lparr>watcher_status := Some ''RETRY''\<rparr>)
   = Inr (failed_state
            \<lparr>watcher_status := Some ''RETRY'',
             messages := messages failed_state
               @ [AIMessage (Text (''Cleaner: FEEDBACK_FROM_WATCHER: Nulls remain in column age''
                                   @ [CHR 0x0A, CHR 0x0A]
                                   @ ''ORIGINAL_TASK: Drop rows with null age'')) []],
             last_agent := Some ''cleaner''\<rparr>)"
  by (simp add: cleaner_node_def run_agent_safely_def echo_agent_def failed_state_def
        initial_state_def)

lemma watcher_node_fail_open:
  assumes "watcher_run (''Review this output: '' @ py_str
             (if messages state \<noteq> [] then lc_content (last (messages state)) else JStr []))
           = Inr review"
    and "repair_json review = Inl x" and "is_Exception x"
  shows "watcher_node repair_json watcher_run state
         = Inr (state\<lparr>watcher_status := Some ''PASS'',
                      watcher_feedback := JStr ''Watcher output unparseable, defaulting to PASS.''\<rparr>)"
  using assms by (simp add: watcher_node_def verdict_def)

lemma watcher_node_not_dict:
  assumes "watcher_run (''Review this output: '' @ py_str
             (if messages state \<noteq> [] then lc_content (last (messages state)) else JStr []))
           = Inr review"
    and "repair_json review = Inr v" and "\<not> is_dict v"
  shows "watcher_node repair_json watcher_run state = Inl (no_attribute v ''get'')"
  using assms by (cases v) (simp_all add: watcher_node_def)

lemma watcher_node_fail_open_run:
  "watcher_node repair_raises (watcher_replies ''The output looks fine to me.'')
     (initial_state ''clean the sales table'')
   = Inr ((initial_state ''clean the sales table'')
            \<lparr>watcher_status := Some ''PASS'',
             watcher_feedback := JStr ''Watcher output unparseable, defaulting to PASS.''\<rparr>)"
  by (simp add: watcher_node_def repair_raises_def watcher_replies_def verdict_def)

text \<open>
  C7. The claim fails on the code when the repair signals its failure by its result:
  \<open>watcher_node\<close> defaults to \<open>PASS\<close> only when \<open>repair_json\<close> raises
  (\<open>watcher_node_fail_open\<close>). For a review in plain prose \<open>json_repair\<close> returns the
  empty string, and \<open>cleaned_review.get\<close>, which is outside the \<open>try\<close>, raises
  \<open>AttributeError\<close>: the node raises instead of passing.
\<close>

theorem C7_unparseable_review_raises:
  "watcher_node repair_gives_up (watcher_replies ''The output looks fine to me.'')
     ((initial_state ''clean the sales table'')
        \<lparr>messages := [HumanMessage (Text ''clean the sales table''),
                      AIMessage (Text ''Cleaner: Saved clean_data.parquet with 120 rows'') []],
         last_agent := Some ''cleaner''\<rparr>)
   = Inl (AttributeError ([CHR 0x27] @ ''str'' @ [CHR 0x27] @ '' object has no attribute ''
                          @ [CHR 0x27] @ ''get'' @ [CHR 0x27]))"
  by (simp add: watcher_node_def repair_gives_up_def watcher_replies_def no_attribute_def)

section \<open>Properties of the metadata store\<close>




section \<open>Properties of BaseAgent\<close>

lemma is_Exception_iff: "is_Exception x \<longleftrightarrow> x \<noteq> KeyboardInterrupt"
  by (cases x) simp_all

lemma try_providers_Inl:
  "fst (try_providers e ps msgs a) = Inl x \<Longrightarrow> x = RuntimeError ALL_PROVIDERS_FAILED \<or> x = KeyboardInterrupt"
proof (induction ps arbitrary: a)
  case Nil
  then show ?case by simp
next
  case (Cons p ps)
  show ?case
  proof (cases "llm e (llm_calls a) p msgs")
    case (Inl y)
    show ?thesis
    proof (cases "is_Exception y")
      case True
      with Inl Cons.prems have "fst (try_providers e ps msgs (a\<lparr>provider := p, llm_calls := Suc (llm_calls a)\<rparr>)) = Inl x"
        by (simp add: Let_def)
      then show ?thesis by (rule Cons.IH)
    next
      case False
      then have "y = KeyboardInterrupt" by (simp add: is_Exception_iff)
      with Inl Cons.prems show ?thesis by (simp add: Let_def)
    qed
  next
    case (Inr r)
    with Cons.prems show ?thesis by (simp add: Let_def)
  qed
qed

lemma robust_invoke_fst:
  "fst (robust_invoke e msgs a) = fst (invoke_with_fallback e msgs a)"
  by (simp add: robust_invoke_def split: prod.splits)

lemma robust_invoke_Inl:
  assumes "fst (robust_invoke e msgs a) = Inl x"
  shows "x = RuntimeError ALL_PROVIDERS_FAILED \<or> x = KeyboardInterrupt"
proof -
  from assms have f: "fst (invoke_with_fallback e msgs a) = Inl x"
    by (simp add: robust_invoke_fst)
  show ?thesis
  proof (cases "llm e (llm_calls a) (provider a) msgs")
    case (Inl y)
    show ?thesis
    proof (cases "is_Exception y")
      case True
      with Inl f have "fst (try_providers e [''gemini'', ''groq'', ''openrouter''] msgs
                            (a\<lparr>llm_calls := Suc (llm_calls a)\<rparr>)) = Inl x"
        by (simp add: invoke_with_fallback_def Let_def split: if_splits)
      then show ?thesis by (rule try_providers_Inl)
    next
      case False
      then have "y = KeyboardInterrupt" by (simp add: is_Exception_iff)
      with Inl f show ?thesis by (simp add: invoke_with_fallback_def Let_def)
    qed
  next
    case (Inr r)
    with f show ?thesis by (simp add: invoke_with_fallback_def Let_def)
  qed
qed

lemma robust_invoke_raises_iff:
  "fst (robust_invoke e msgs a) = Inl (RuntimeError ALL_PROVIDERS_FAILED)
   \<longleftrightarrow> all_providers_fail e msgs a"
  unfolding robust_invoke_fst
  by (auto simp: invoke_with_fallback_def all_providers_fail_def fails_def tool_validation_error_def
        Let_def is_Exception_iff split: sum.splits if_splits)

lemma try_providers_same:
  "tools_map (snd (try_providers e ps msgs a)) = tools_map a
   \<and> invoke_log (snd (try_providers e ps msgs a)) = invoke_log a"
  by (induction ps arbitrary: a) (auto simp: Let_def split: sum.splits)

lemma invoke_with_fallback_same:
  "tools_map (snd (invoke_with_fallback e msgs a)) = tools_map a
   \<and> invoke_log (snd (invoke_with_fallback e msgs a)) = invoke_log a"
  by (auto simp: invoke_with_fallback_def Let_def try_providers_same split: sum.splits)

lemma robust_invoke_same:
  assumes "robust_invoke e msgs a = (r, a')"
  shows "tools_map a' = tools_map a" and "invoke_log a' = invoke_log a @ [r]"
proof -
  obtain r0 a0 where i: "invoke_with_fallback e msgs a = (r0, a0)"
    by (cases "invoke_with_fallback e msgs a")
  from i assms have r: "r = r0" and a': "a' = a0\<lparr>invoke_log := invoke_log a0 @ [r0]\<rparr>"
    by (auto simp: robust_invoke_def)
  from invoke_with_fallback_same [of e msgs a] i
  have "tools_map a0 = tools_map a" "invoke_log a0 = invoke_log a"
    by simp_all
  then show "tools_map a' = tools_map a" and "invoke_log a' = invoke_log a @ [r]"
    by (simp_all add: r a')
qed

lemma run_tool_Inl:
  "run_tool e a tc = Inl x \<Longrightarrow> x = KeyboardInterrupt"
  by (auto simp: run_tool_def Let_def is_Exception_iff split: option.splits sum.splits if_splits)

lemma run_tools_Inl:
  "run_tools e a tcs msgs = Inl x \<Longrightarrow> x = KeyboardInterrupt"
  by (induction tcs arbitrary: msgs) (auto split: sum.splits dest: run_tool_Inl)

lemma tool_loop_post:
  assumes "tool_loop e a msgs ai n = (r, msgs', n', a')"
    and "n \<le> MAX_LOOPS" and "msgs \<noteq> []" and "last msgs = AIMessage (fst ai) (snd ai)"
  shows "n' \<le> MAX_LOOPS
       \<and> (case r of
            Inl x \<Rightarrow> x = RuntimeError ALL_PROVIDERS_FAILED \<or> x = KeyboardInterrupt
          | Inr ai' \<Rightarrow> msgs' \<noteq> [] \<and> last msgs' = AIMessage (fst ai') (snd ai'))"
  using assms
proof (induction e a msgs ai n arbitrary: r msgs' n' a' rule: tool_loop.induct)
  case (1 e a msgs ai_msg loop_count)
  show ?case
  proof (cases "snd ai_msg \<noteq> [] \<and> loop_count < MAX_LOOPS")
    case False
    then have "tool_loop e a msgs ai_msg loop_count = (Inr ai_msg, msgs, loop_count, a)"
      by (subst tool_loop.simps) auto
    with "1.prems" show ?thesis by auto
  next
    case True
    show ?thesis
    proof (cases "run_tools e a (snd ai_msg) msgs")
      case (Inl x)
      with True have "tool_loop e a msgs ai_msg loop_count = (Inl x, msgs, Suc loop_count, a)"
        by (subst tool_loop.simps) simp
      with "1.prems" True run_tools_Inl [OF Inl] show ?thesis by auto
    next
      case (Inr msgs1)
      obtain r1 a1 where ri: "robust_invoke e msgs1 a = (r1, a1)"
        by (cases "robust_invoke e msgs1 a")
      show ?thesis
      proof (cases r1)
        case (Inl x)
        with True Inr ri
        have "tool_loop e a msgs ai_msg loop_count = (Inl x, msgs1, Suc loop_count, a1)"
          by (subst tool_loop.simps) simp
        moreover have "x = RuntimeError ALL_PROVIDERS_FAILED \<or> x = KeyboardInterrupt"
          using robust_invoke_Inl [of e msgs1 a x] ri Inl by simp
        ultimately show ?thesis using "1.prems" True by auto
      next
        case (Inr ai')
        with True \<open>run_tools e a (snd ai_msg) msgs = Inr msgs1\<close> ri
        have step: "tool_loop e a msgs ai_msg loop_count
              = tool_loop e a1 (msgs1 @ [AIMessage (fst ai') (snd ai')]) ai' (Suc loop_count)"
          by (subst tool_loop.simps) simp
        show ?thesis
          using "1.IH" [OF True \<open>run_tools e a (snd ai_msg) msgs = Inr msgs1\<close> ri [symmetric] Inr,
                        of r msgs' n' a']
                "1.prems" True
          unfolding step by simp
      qed
    qed
  qed
qed

lemma tool_loop_log:
  assumes "tool_loop e a msgs ai n = (r, msgs', n', a')"
  shows "\<exists>new. invoke_log a' = invoke_log a @ new \<and> (\<forall>x. Inl x \<in> set new \<longrightarrow> r = Inl x)"
  using assms
proof (induction e a msgs ai n arbitrary: r msgs' n' a' rule: tool_loop.induct)
  case (1 e a msgs ai_msg loop_count)
  show ?case
  proof (cases "snd ai_msg \<noteq> [] \<and> loop_count < MAX_LOOPS")
    case False
    then have "tool_loop e a msgs ai_msg loop_count = (Inr ai_msg, msgs, loop_count, a)"
      by (subst tool_loop.simps) auto
    with "1.prems" have "a' = a" by simp
    then have "invoke_log a' = invoke_log a @ [] \<and> (\<forall>x. Inl x \<in> set [] \<longrightarrow> r = Inl x)"
      by simp
    then show ?thesis by blast
  next
    case True
    show ?thesis
    proof (cases "run_tools e a (snd ai_msg) msgs")
      case (Inl x)
      with True have "tool_loop e a msgs ai_msg loop_count = (Inl x, msgs, Suc loop_count, a)"
        by (subst tool_loop.simps) simp
      with "1.prems" have "a' = a" by simp
      then have "invoke_log a' = invoke_log a @ [] \<and> (\<forall>x. Inl x \<in> set [] \<longrightarrow> r = Inl x)"
        by simp
      then show ?thesis by blast
    next
      case (Inr msgs1)
      obtain r1 a1 where ri: "robust_invoke e msgs1 a = (r1, a1)"
        by (cases "robust_invoke e msgs1 a")
      have l1: "invoke_log a1 = invoke_log a @ [r1]"
        using ri by (rule robust_invoke_same)
      show ?thesis
      proof (cases r1)
        case (Inl x)
        with True Inr ri
        have "tool_loop e a msgs ai_msg loop_count = (Inl x, msgs1, Suc loop_count, a1)"
          by (subst tool_loop.simps) simp
        with "1.prems" have "a' = a1" "r = Inl x" by simp_all
        with l1 Inl have "invoke_log a' = invoke_log a @ [r1] \<and> (\<forall>y. Inl y \<in> set [r1] \<longrightarrow> r = Inl y)"
          by simp
        then show ?thesis by blast
      next
        case (Inr ai')
        with True \<open>run_tools e a (snd ai_msg) msgs = Inr msgs1\<close> ri
        have step: "tool_loop e a msgs ai_msg loop_count
              = tool_loop e a1 (msgs1 @ [AIMessage (fst ai') (snd ai')]) ai' (Suc loop_count)"
          by (subst tool_loop.simps) simp
        from "1.IH" [OF True \<open>run_tools e a (snd ai_msg) msgs = Inr msgs1\<close> ri [symmetric] Inr,
                        of r msgs' n' a'] "1.prems"
        obtain new where n: "invoke_log a' = invoke_log a1 @ new"
          and p: "\<forall>x. Inl x \<in> set new \<longrightarrow> r = Inl x"
          unfolding step by blast
        have "invoke_log a' = invoke_log a @ (r1 # new) \<and> (\<forall>x. Inl x \<in> set (r1 # new) \<longrightarrow> r = Inl x)"
          using n p l1 Inr by simp
        then show ?thesis by blast
      qed
    qed
  qed
qed



lemma final_response_post:
  assumes "final_response e a msgs = (r, n, msgs', a')"
  shows "n \<le> MAX_LOOPS"
    and "\<And>s. r = Inr s \<Longrightarrow> \<exists>c tcs. msgs' \<noteq> [] \<and> last msgs' = AIMessage c tcs \<and> final_text c = Inr s"
    and "\<exists>new. invoke_log a' = invoke_log a @ new \<and> (\<forall>x. Inl x \<in> set new \<longrightarrow> r = Inl x)"
proof -
  obtain r0 a2 where ri: "robust_invoke e msgs a = (r0, a2)"
    by (cases "robust_invoke e msgs a")
  have l2: "invoke_log a2 = invoke_log a @ [r0]"
    using ri by (rule robust_invoke_same)
  have all: "n \<le> MAX_LOOPS
    \<and> (\<forall>s. r = Inr s \<longrightarrow> (\<exists>c tcs. msgs' \<noteq> [] \<and> last msgs' = AIMessage c tcs \<and> final_text c = Inr s))
    \<and> (\<exists>new. invoke_log a' = invoke_log a @ new \<and> (\<forall>x. Inl x \<in> set new \<longrightarrow> r = Inl x))"
  proof (cases r0)
    case (Inl x)
    with ri assms have e: "r = Inl x" "n = 0" "a' = a2"
      by (simp_all add: final_response_def)
    have "invoke_log a' = invoke_log a @ [r0] \<and> (\<forall>y. Inl y \<in> set [r0] \<longrightarrow> r = Inl y)"
      using e l2 Inl by simp
    then have "\<exists>new. invoke_log a' = invoke_log a @ new \<and> (\<forall>x. Inl x \<in> set new \<longrightarrow> r = Inl x)"
      by blast
    with e show ?thesis by simp
  next
    case (Inr ai_msg)
    let ?m1 = "msgs @ [AIMessage (fst ai_msg) (snd ai_msg)]"
    obtain r1 msgs1 n1 a3 where tl: "tool_loop e a2 ?m1 ai_msg 0 = (r1, msgs1, n1, a3)"
      by (cases "tool_loop e a2 ?m1 ai_msg 0") auto
    have post: "n1 \<le> MAX_LOOPS
       \<and> (case r1 of
            Inl x \<Rightarrow> x = RuntimeError ALL_PROVIDERS_FAILED \<or> x = KeyboardInterrupt
          | Inr ai' \<Rightarrow> msgs1 \<noteq> [] \<and> last msgs1 = AIMessage (fst ai') (snd ai'))"
      by (rule tool_loop_post [OF tl]) simp_all
    from tool_loop_log [OF tl] obtain new
      where n: "invoke_log a3 = invoke_log a2 @ new" and p: "\<forall>x. Inl x \<in> set new \<longrightarrow> r1 = Inl x"
      by blast
    show ?thesis
    proof (cases r1)
      case (Inl x)
      with ri Inr tl assms have e: "r = Inl x" "n = n1" "a' = a3"
        by (simp_all add: final_response_def)
      have "invoke_log a' = invoke_log a @ (r0 # new) \<and> (\<forall>y. Inl y \<in> set (r0 # new) \<longrightarrow> r = Inl y)"
        using e n p l2 Inl \<open>r0 = Inr ai_msg\<close> by simp
      then have "\<exists>new. invoke_log a' = invoke_log a @ new \<and> (\<forall>x. Inl x \<in> set new \<longrightarrow> r = Inl x)"
        by blast
      with e post show ?thesis by simp
    next
      case (Inr ai')
      with ri \<open>r0 = Inr ai_msg\<close> tl assms
      have e: "r = final_text (fst ai')" "n = n1" "a' = a3" "msgs' = msgs1"
        by (simp_all add: final_response_def)
      from p Inr have none: "\<forall>x. Inl x \<notin> set new"
        by auto
      have "invoke_log a' = invoke_log a @ (r0 # new) \<and> (\<forall>y. Inl y \<in> set (r0 # new) \<longrightarrow> r = Inl y)"
        using e n none l2 \<open>r0 = Inr ai_msg\<close> by simp
      then have "\<exists>new. invoke_log a' = invoke_log a @ new \<and> (\<forall>x. Inl x \<in> set new \<longrightarrow> r = Inl x)"
        by blast
      moreover have "\<forall>s. r = Inr s \<longrightarrow> (\<exists>c tcs. msgs' \<noteq> [] \<and> last msgs' = AIMessage c tcs \<and> final_text c = Inr s)"
        using post Inr e by auto
      ultimately show ?thesis using e post by simp
    qed
  qed
  from all show "n \<le> MAX_LOOPS" by simp
  from all show "\<And>s. r = Inr s \<Longrightarrow> \<exists>c tcs. msgs' \<noteq> [] \<and> last msgs' = AIMessage c tcs \<and> final_text c = Inr s"
    by simp
  from all show "\<exists>new. invoke_log a' = invoke_log a @ new \<and> (\<forall>x. Inl x \<in> set new \<longrightarrow> r = Inl x)"
    by simp
qed


lemma try_block_post:
  assumes "try_block e a msgs = (r, n, msgs', a')"
  shows "n \<le> MAX_LOOPS"
    and "\<And>s. r = Inr s \<Longrightarrow> \<exists>c tcs. msgs' \<noteq> [] \<and> last msgs' = AIMessage c tcs \<and> final_text c = Inr s"
    and "\<exists>new. invoke_log a' = invoke_log a @ new \<and> (\<forall>x. Inl x \<in> set new \<longrightarrow> r = Inl x)"
proof -
  obtain r0 n0 m0 a0 where f: "final_response e a msgs = (r0, n0, m0, a0)"
    by (cases "final_response e a msgs") auto
  note post = final_response_post [OF f]
  from post(3) obtain new
    where l: "invoke_log a0 = invoke_log a @ new" and p: "\<forall>x. Inl x \<in> set new \<longrightarrow> r0 = Inl x"
    by blast
  have all: "n \<le> MAX_LOOPS
    \<and> (\<forall>s. r = Inr s \<longrightarrow> (\<exists>c tcs. msgs' \<noteq> [] \<and> last msgs' = AIMessage c tcs \<and> final_text c = Inr s))
    \<and> invoke_log a' = invoke_log a @ new \<and> (\<forall>x. Inl x \<in> set new \<longrightarrow> r = Inl x)"
  proof (cases r0)
    case (Inl x)
    with f assms have e: "r = r0" "n = n0" "msgs' = m0" "a' = a0"
      by (simp_all add: try_block_def)
    with post(1) l p Inl show ?thesis by simp
  next
    case (Inr final)
    from p Inr have none: "\<forall>x. Inl x \<notin> set new"
      by auto
    from post(2) [OF Inr] obtain c tcs
      where c: "m0 \<noteq> []" "last m0 = AIMessage c tcs" "final_text c = Inr final"
      by blast
    show ?thesis
    proof (cases "reply_fault e")
      case None
      with Inr f assms have e: "r = Inr final" "n = n0" "msgs' = m0"
        "a' = a0\<lparr>warm_memory :=
               fst (add_message (agent_name a0) (JStr final) (t_reply e) (warm_memory a0))\<rparr>"
        by (simp_all add: try_block_def)
      with post(1) l none c show ?thesis by auto
    next
      case (Some x)
      with Inr f assms have e: "r = Inl x" "n = n0" "msgs' = m0" "a' = a0"
        by (simp_all add: try_block_def)
      with post(1) l none show ?thesis by simp
    qed
  qed
  from all show "n \<le> MAX_LOOPS" by simp
  from all show "\<And>s. r = Inr s \<Longrightarrow> \<exists>c tcs. msgs' \<noteq> [] \<and> last msgs' = AIMessage c tcs \<and> final_text c = Inr s"
    by simp
  from all show "\<exists>new. invoke_log a' = invoke_log a @ new \<and> (\<forall>x. Inl x \<in> set new \<longrightarrow> r = Inl x)"
    by blast
qed

lemma before_try_same:
  "tools_map (snd (before_try e a task)) = tools_map a"
  "invoke_log (snd (before_try e a task)) = invoke_log a"
  by (simp_all add: before_try_def Let_def split: option.splits)

lemma run_task_trace_raised:
  assumes "fst (before_try e a task) = Inl x"
  shows "run_task_trace e a task
         = \<lparr>result = Inl x, rounds = 0, history = [], agent_after = snd (before_try e a task)\<rparr>"
  using assms by (cases "before_try e a task") (simp add: run_task_trace_def)

lemma run_task_trace_tried:
  assumes "fst (before_try e a task) = Inr msgs"
    and "try_block e (snd (before_try e a task)) msgs = (r, n, msgs', a')"
  shows "run_task_trace e a task
         = \<lparr>result = (case r of Inl x \<Rightarrow> except_Exception x | Inr txt \<Rightarrow> Inr txt),
            rounds = n, history = msgs', agent_after = a'\<rparr>"
  using assms by (cases "before_try e a task") (simp add: run_task_trace_def)

lemma run_task_trace_post:
  "rounds (run_task_trace e a task) \<le> MAX_LOOPS
   \<and> ((\<exists>x. result (run_task_trace e a task) = Inl x
            \<and> (fst (before_try e a task) = Inl x \<or> x = KeyboardInterrupt))
      \<or> (\<exists>x. is_Exception x \<and> result (run_task_trace e a task) = Inr (AGENT_ERROR @ exn_str x))
      \<or> (\<exists>c tcs s. history (run_task_trace e a task) \<noteq> []
             \<and> last (history (run_task_trace e a task)) = AIMessage c tcs
             \<and> final_text c = Inr s \<and> result (run_task_trace e a task) = Inr s))"
proof (cases "fst (before_try e a task)")
  case (Inl x)
  then show ?thesis
    by (simp add: run_task_trace_raised [OF Inl])
next
  case (Inr msgs)
  obtain r n msgs' a' where t: "try_block e (snd (before_try e a task)) msgs = (r, n, msgs', a')"
    by (cases "try_block e (snd (before_try e a task)) msgs") auto
  note post = try_block_post [OF t]
  note tr = run_task_trace_tried [OF Inr t]
  show ?thesis
  proof (cases r)
    case (Inl x)
    show ?thesis
    proof (cases "is_Exception x")
      case True
      with Inl post(1) show ?thesis
        unfolding tr by (auto simp: except_Exception_def)
    next
      case False
      then have "x = KeyboardInterrupt"
        by (simp add: is_Exception_iff)
      with Inl post(1) show ?thesis
        unfolding tr by (simp add: except_Exception_def)
    qed
  next
    case (Inr final)
    from post(2) [OF Inr] post(1) Inr show ?thesis
      unfolding tr by auto
  qed
qed

lemma run_task_trace_invocations:
  assumes "Inl x \<in> set (invocations e a task)"
  shows "result (run_task_trace e a task) = except_Exception x"
proof (cases "fst (before_try e a task)")
  case (Inl y)
  have "invocations e a task = []"
    by (simp add: invocations_def run_task_trace_raised [OF Inl] before_try_same)
  with assms show ?thesis by simp
next
  case (Inr msgs)
  obtain r n msgs' a' where t: "try_block e (snd (before_try e a task)) msgs = (r, n, msgs', a')"
    by (cases "try_block e (snd (before_try e a task)) msgs") auto
  from try_block_post(3) [OF t] obtain new
    where l: "invoke_log a' = invoke_log a @ new" and p: "\<forall>x. Inl x \<in> set new \<longrightarrow> r = Inl x"
    by (auto simp: before_try_same)
  have "invocations e a task = new"
    by (simp add: invocations_def run_task_trace_tried [OF Inr t] l)
  with assms p have "r = Inl x"
    by simp
  then show ?thesis
    by (simp add: run_task_trace_tried [OF Inr t])
qed













text \<open>
  C3 as stated fails: with a model that no provider reaches, every provider of the
  fallback sequence fails, \<open>_robust_invoke\<close> raises \<open>RuntimeError\<close>, and \<open>run_task\<close> does
  not raise: its \<open>except Exception\<close> clause returns the error as a string.
\<close>

theorem C3_all_providers_fail_counterexample:
  "fst (before_try dead_env cleaner_agent (JStr ''Drop rows with null age''))
     = Inr [SystemMessage ''You are the Cleaner.'', HumanMessage (Text ''Drop rows with null age'')]
   \<and> all_providers_fail dead_env
        [SystemMessage ''You are the Cleaner.'', HumanMessage (Text ''Drop rows with null age'')]
        (snd (before_try dead_env cleaner_agent (JStr ''Drop rows with null age'')))
   \<and> fst (robust_invoke dead_env
        [SystemMessage ''You are the Cleaner.'', HumanMessage (Text ''Drop rows with null age'')]
        (snd (before_try dead_env cleaner_agent (JStr ''Drop rows with null age''))))
      = Inl (RuntimeError ''All LLM providers failed. Please check your API keys or connection.'')
   \<and> run_task dead_env cleaner_agent (JStr ''Drop rows with null age'')
      = Inr (AGENT_ERROR @ ''All LLM providers failed. Please check your API keys or connection.'')"
proof -
  have p: "fst (before_try dead_env cleaner_agent (JStr ''Drop rows with null age''))
     = Inr [SystemMessage ''You are the Cleaner.'', HumanMessage (Text ''Drop rows with null age'')]"
    by code_simp
  have v: "\<not> py_in ''tool call validation failed'' ''Connection error.''"
          "\<not> py_in ''not in request.tools'' ''Connection error.''"
    unfolding py_in_def by code_simp+
  have a: "all_providers_fail dead_env msgs ag" for msgs ag
    by (simp add: all_providers_fail_def fails_def tool_validation_error_def dead_env_def
          env_of_def v)
  have i: "fst (robust_invoke dead_env msgs ag) = Inl (RuntimeError ALL_PROVIDERS_FAILED)" for msgs ag
    using a by (simp only: robust_invoke_raises_iff)
  have r: "run_task dead_env cleaner_agent (JStr ''Drop rows with null age'')
      = Inr (AGENT_ERROR @ ''All LLM providers failed. Please check your API keys or connection.'')"
    by code_simp
  from p a i r show ?thesis
    unfolding ALL_PROVIDERS_FAILED_def by blast
qed

text \<open>
  C3, amended. \<open>_robust_invoke\<close> raises \<open>RuntimeError\<close> if and only if the active
  provider and every provider of the fallback sequence fail (the first failure not
  being a tool-validation error). \<open>run_task\<close> catches it: whenever one of the
  \<open>_robust_invoke\<close> calls of a run raises it, the first one or the one after any tool
  round, \<open>run_task\<close> returns the string \<open>"... Agent Error: All LLM providers failed.
  Please check your API keys or connection."\<close>. An exception raised by one of the two
  statements before the \<open>try\<close> (the logging of the task, a Redis error for instance,
  and \<open>_build_history\<close>, a \<open>TypeError\<close> on a task without a length for instance) leaves
  \<open>run_task\<close>. When those two succeed, \<open>run_task\<close> returns a string unless a
  \<open>KeyboardInterrupt\<close> went through it: every \<open>Exception\<close> that the body of the \<open>try\<close>
  raises comes back as the string \<open>"... Agent Error: "\<close> followed by its text, and this
  includes a failure of the store when the answer is recorded.
\<close>

theorem C3_run_task_catches:
  "(fst (robust_invoke e msgs a) = Inl (RuntimeError ALL_PROVIDERS_FAILED)
      \<longleftrightarrow> all_providers_fail e msgs a)
   \<and> (Inl (RuntimeError ALL_PROVIDERS_FAILED) \<in> set (invocations e a task)
      \<longrightarrow> run_task e a task = Inr (AGENT_ERROR @ ALL_PROVIDERS_FAILED))
   \<and> (fst (before_try e a task) = Inl x \<longrightarrow> run_task e a task = Inl x)
   \<and> (fst (before_try e a task) = Inr hist
      \<longrightarrow> ((\<exists>s. run_task e a task = Inr s) \<or> run_task e a task = Inl KeyboardInterrupt)
          \<and> (fst (try_block e (snd (before_try e a task)) hist) = Inl y \<and> is_Exception y
               \<longrightarrow> run_task e a task = Inr (AGENT_ERROR @ exn_str y))
          \<and> (fst (final_response e (snd (before_try e a task)) hist) = Inr final
               \<and> reply_fault e = Some y \<and> is_Exception y
               \<longrightarrow> run_task e a task = Inr (AGENT_ERROR @ exn_str y)))"
proof -
  have one: "fst (robust_invoke e msgs a) = Inl (RuntimeError ALL_PROVIDERS_FAILED)
      \<longleftrightarrow> all_providers_fail e msgs a"
    by (rule robust_invoke_raises_iff)
  have two: "run_task e a task = Inr (AGENT_ERROR @ ALL_PROVIDERS_FAILED)"
    if "Inl (RuntimeError ALL_PROVIDERS_FAILED) \<in> set (invocations e a task)"
    using run_task_trace_invocations [OF that]
    by (simp add: run_task_def except_Exception_def)
  have three: "run_task e a task = Inl x" if "fst (before_try e a task) = Inl x"
    by (simp add: run_task_def run_task_trace_raised [OF that])
  have four: "(\<exists>s. run_task e a task = Inr s) \<or> run_task e a task = Inl KeyboardInterrupt"
    if "fst (before_try e a task) = Inr hist"
    using run_task_trace_post [of e a task] that unfolding run_task_def
    by auto
  have five: "run_task e a task = Inr (AGENT_ERROR @ exn_str y)"
    if b: "fst (before_try e a task) = Inr hist"
      and t: "fst (try_block e (snd (before_try e a task)) hist) = Inl y" and y: "is_Exception y"
  proof -
    obtain n msgs' a' where "try_block e (snd (before_try e a task)) hist = (Inl y, n, msgs', a')"
      using t by (cases "try_block e (snd (before_try e a task)) hist") auto
    from run_task_trace_tried [OF b this] y show ?thesis
      by (simp add: run_task_def except_Exception_def)
  qed
  have six: "run_task e a task = Inr (AGENT_ERROR @ exn_str y)"
    if b: "fst (before_try e a task) = Inr hist"
      and f: "fst (final_response e (snd (before_try e a task)) hist) = Inr final"
      and r: "reply_fault e = Some y" and y: "is_Exception y"
  proof -
    from f r have "fst (try_block e (snd (before_try e a task)) hist) = Inl y"
      by (cases "final_response e (snd (before_try e a task)) hist") (simp add: try_block_def)
    from five [OF b this y] show ?thesis .
  qed
  from one two three four five six show ?thesis by blast
qed

text \<open>
  C3 (amended) on five runs of the Cleaner: a model that no provider reaches (the
  first \<open>_robust_invoke\<close> raises, \<open>run_task\<close> returns the error string); a model that is
  out of reach after the first tool round (the second \<open>_robust_invoke\<close> raises, same
  string); a store that is down when the task is logged (the error of Redis leaves
  \<open>run_task\<close>); the task \<open>5\<close>, which has no length (\<open>_build_history\<close> raises \<open>TypeError\<close>,
  which leaves \<open>run_task\<close>); and a store that goes down before the answer is recorded
  (the error comes back as a string).
\<close>

theorem C3_run_task_catches_witness:
  "all_providers_fail dead_env
     [SystemMessage ''You are the Cleaner.'', HumanMessage (Text ''Fill missing ages'')]
     (snd (before_try dead_env cleaner_agent (JStr ''Fill missing ages'')))
   \<and> invocations dead_env cleaner_agent (JStr ''Fill missing ages'')
      = [Inl (RuntimeError ALL_PROVIDERS_FAILED)]
   \<and> run_task dead_env cleaner_agent (JStr ''Fill missing ages'')
      = Inr (AGENT_ERROR @ ALL_PROVIDERS_FAILED)
   \<and> invocations flaky_env cleaner_agent (JStr ''Fill missing ages'')
      = [Inr (Text ''answer 0'', [interpreter_call 0]), Inl (RuntimeError ALL_PROVIDERS_FAILED)]
   \<and> run_task flaky_env cleaner_agent (JStr ''Fill missing ages'')
      = Inr (AGENT_ERROR @ ALL_PROVIDERS_FAILED)
   \<and> fst (before_try (eager_env\<lparr>task_fault := Some REDIS_DOWN\<rparr>) cleaner_agent
             (JStr ''Fill missing ages''))
      = Inl REDIS_DOWN
   \<and> run_task (eager_env\<lparr>task_fault := Some REDIS_DOWN\<rparr>) cleaner_agent (JStr ''Fill missing ages'')
      = Inl REDIS_DOWN
   \<and> fst (before_try eager_env cleaner_agent (JInt 5))
      = Inl (TypeError (''object of type '' @ [CHR 0x27] @ ''int'' @ [CHR 0x27] @ '' has no len()''))
   \<and> run_task eager_env cleaner_agent (JInt 5)
      = Inl (TypeError (''object of type '' @ [CHR 0x27] @ ''int'' @ [CHR 0x27] @ '' has no len()''))
   \<and> fst (before_try (eager_env\<lparr>reply_fault := Some REDIS_DOWN\<rparr>) cleaner_agent
             (JStr ''Fill missing ages''))
      = Inr [SystemMessage ''You are the Cleaner.'', HumanMessage (Text ''Fill missing ages'')]
   \<and> fst (final_response (eager_env\<lparr>reply_fault := Some REDIS_DOWN\<rparr>)
             (snd (before_try (eager_env\<lparr>reply_fault := Some REDIS_DOWN\<rparr>) cleaner_agent
                     (JStr ''Fill missing ages'')))
             [SystemMessage ''You are the Cleaner.'', HumanMessage (Text ''Fill missing ages'')])
      = Inr ''answer 5''
   \<and> reply_fault (eager_env\<lparr>reply_fault := Some REDIS_DOWN\<rparr>) = Some REDIS_DOWN
   \<and> is_Exception REDIS_DOWN
   \<and> run_task (eager_env\<lparr>reply_fault := Some REDIS_DOWN\<rparr>) cleaner_agent (JStr ''Fill missing ages'')
      = Inr (AGENT_ERROR @ ''Error 111 connecting to localhost:6379. Connection refused.'')"
proof -
  let ?task = "JStr ''Fill missing ages''"
  let ?hist = "[SystemMessage ''You are the Cleaner.'', HumanMessage (Text ''Fill missing ages'')]"
  let ?down = "eager_env\<lparr>task_fault := Some REDIS_DOWN\<rparr>"
  let ?lost = "eager_env\<lparr>reply_fault := Some REDIS_DOWN\<rparr>"
  have v: "\<not> py_in ''tool call validation failed'' ''Connection error.''"
          "\<not> py_in ''not in request.tools'' ''Connection error.''"
    unfolding py_in_def by code_simp+
  have a: "all_providers_fail dead_env msgs ag" for msgs ag
    by (simp add: all_providers_fail_def fails_def tool_validation_error_def dead_env_def
          env_of_def v)
  have i1: "invocations dead_env cleaner_agent ?task = [Inl (RuntimeError ALL_PROVIDERS_FAILED)]"
    by code_simp
  have i2: "invocations flaky_env cleaner_agent ?task
      = [Inr (Text ''answer 0'', [interpreter_call 0]), Inl (RuntimeError ALL_PROVIDERS_FAILED)]"
    by code_simp
  have b3: "fst (before_try ?down cleaner_agent ?task) = Inl REDIS_DOWN"
    by (simp add: before_try_def)
  have b4: "fst (before_try eager_env cleaner_agent (JInt 5))
      = Inl (TypeError (''object of type '' @ [CHR 0x27] @ ''int'' @ [CHR 0x27] @ '' has no len()''))"
    by code_simp
  have b5: "fst (before_try ?lost cleaner_agent ?task) = Inr ?hist"
    by code_simp
  have f5: "fst (final_response ?lost (snd (before_try ?lost cleaner_agent ?task)) ?hist)
      = Inr ''answer 5''"
    by code_simp
  have r5: "reply_fault ?lost = Some REDIS_DOWN"
    by simp
  have e5: "is_Exception REDIS_DOWN"
    by (simp add: REDIS_DOWN_def)
  have s5: "exn_str REDIS_DOWN = ''Error 111 connecting to localhost:6379. Connection refused.''"
    by (simp add: REDIS_DOWN_def)
  from a i1 i2 b3 b4 b5 f5 r5 e5
    C3_run_task_catches [of dead_env _ cleaner_agent ?task]
    C3_run_task_catches [of flaky_env _ cleaner_agent ?task]
    C3_run_task_catches [of ?down _ cleaner_agent ?task REDIS_DOWN]
    C3_run_task_catches [of eager_env _ cleaner_agent "JInt 5"
       "TypeError (''object of type '' @ [CHR 0x27] @ ''int'' @ [CHR 0x27] @ '' has no len()'')"]
    C3_run_task_catches [of ?lost _ cleaner_agent ?task _ ?hist REDIS_DOWN "''answer 5''"]
  show ?thesis
    unfolding s5 [symmetric] by simp
qed

end
